theory Spec2Isabelle
  imports Main "HOL-Library.Word"
begin

section \<open>rtnetlink message decoding (src/rtnetlink.cpp)\<close>

text \<open>
  The three entry points \<open>gatewayFromRtm\<close>, \<open>addrFromRtm\<close> and \<open>neighFromRtm\<close> take a
  \<open>std::string_view\<close> over one kernel message and either return a value or throw.  A buffer
  is a list of bytes, a throw is the left injection of a sum, and the \<open>std::optional\<close> that
  \<open>gatewayFromRtm\<close> returns is an \<open>option\<close> inside the right injection.
\<close>

subsection \<open>Buffers, errors and kernel constants\<close>

type_synonym byte = "8 word"
type_synonym bytes = "byte list"
type_synonym u16 = "16 word"
type_synonym u32 = "32 word"

datatype error =
    TruncatedBuffer
  | InvalidLength
  | SizeMismatch
  | FamilyLengthMismatch
  | UnsupportedFamily
  | MissingAddress

text \<open>
  Integers wider than a byte are copied raw out of the buffer, so they are read in host byte
  order; the host is taken to be little-endian: the first byte is the least significant.
\<close>

definition host_word :: "bytes \<Rightarrow> 'a::len word" where
  "host_word bs = foldr (\<lambda>b acc. ucast b + 256 * acc) bs 0"

text \<open>Values from the Linux UAPI headers (\<open>linux/rtnetlink.h\<close>, \<open>linux/if_addr.h\<close>,
  \<open>linux/neighbour.h\<close>, \<open>sys/socket.h\<close>).\<close>

definition AF_INET :: byte where "AF_INET = 2"
definition AF_INET6 :: byte where "AF_INET6 = 10"
definition RT_TABLE_MAIN :: byte where "RT_TABLE_MAIN = 254"
definition RTA_OIF :: u16 where "RTA_OIF = 4"
definition RTA_GATEWAY :: u16 where "RTA_GATEWAY = 5"
definition IFA_ADDRESS :: u16 where "IFA_ADDRESS = 1"
definition IFA_FLAGS :: u16 where "IFA_FLAGS = 8"
definition NDA_DST :: u16 where "NDA_DST = 1"
definition NDA_LLADDR :: u16 where "NDA_LLADDR = 2"

text \<open>\<open>RTA_ALIGN(len)\<close> is \<open>(len + 3) & ~3\<close>; \<open>RTA_LENGTH(0)\<close>, the size of the aligned
  record header, is 4.\<close>

definition RTA_ALIGN :: "nat \<Rightarrow> nat" where
  "RTA_ALIGN len = ((len + 3) div 4) * 4"

definition RTA_LENGTH0 :: nat where
  "RTA_LENGTH0 = 4"

subsection \<open>Kernel structures\<close>

record rtattr =
  rta_len :: u16
  rta_type :: u16

record rtmsg =
  rtm_family :: byte
  rtm_dst_len :: byte
  rtm_src_len :: byte
  rtm_tos :: byte
  rtm_table :: byte
  rtm_protocol :: byte
  rtm_scope :: byte
  rtm_type :: byte
  rtm_flags :: u32

record ifaddrmsg =
  ifa_family :: byte
  ifa_prefixlen :: byte
  ifa_flags :: byte
  ifa_scope :: byte
  ifa_index :: u32

record ndmsg =
  ndm_family :: byte
  ndm_pad1 :: byte
  ndm_pad2 :: u16
  ndm_ifindex :: u32
  ndm_state :: u16
  ndm_flags :: byte
  ndm_type :: byte

text \<open>The raw images of the structures: 12, 8 and 12 bytes, fields at their C offsets.\<close>

definition rtmsg_of :: "bytes \<Rightarrow> rtmsg" where
  "rtmsg_of b =
     \<lparr>rtm_family = b ! 0, rtm_dst_len = b ! 1, rtm_src_len = b ! 2, rtm_tos = b ! 3,
      rtm_table = b ! 4, rtm_protocol = b ! 5, rtm_scope = b ! 6, rtm_type = b ! 7,
      rtm_flags = host_word (take 4 (drop 8 b))\<rparr>"

definition ifaddrmsg_of :: "bytes \<Rightarrow> ifaddrmsg" where
  "ifaddrmsg_of b =
     \<lparr>ifa_family = b ! 0, ifa_prefixlen = b ! 1, ifa_flags = b ! 2, ifa_scope = b ! 3,
      ifa_index = host_word (take 4 (drop 4 b))\<rparr>"

definition ndmsg_of :: "bytes \<Rightarrow> ndmsg" where
  "ndmsg_of b =
     \<lparr>ndm_family = b ! 0, ndm_pad1 = b ! 1, ndm_pad2 = host_word (take 2 (drop 2 b)),
      ndm_ifindex = host_word (take 4 (drop 4 b)),
      ndm_state = host_word (take 2 (drop 8 b)),
      ndm_flags = b ! 10, ndm_type = b ! 11\<rparr>"

definition rtattr_of :: "bytes \<Rightarrow> rtattr" where
  "rtattr_of b = \<lparr>rta_len = host_word (take 2 b), rta_type = host_word (take 2 (drop 2 b))\<rparr>"

subsection \<open>Domain values\<close>

text \<open>\<open>InAddrAny\<close> is \<open>std::variant<in_addr, in6_addr>\<close>; an address is kept as its 4 or 16
  raw bytes in wire order, an \<open>ether_addr\<close> as its 6 bytes.\<close>

datatype InAddrAny = V4 bytes | V6 bytes

text \<open>Modelled from the spec: the declaration of \<open>IfAddr\<close> (types.hpp) is missing; the spec's
  \<open>PrefixedAddress\<close> is the pair of an address and an 8-bit prefix length.\<close>

record IfAddr =
  addr :: InAddrAny
  pfx :: byte

record AddressInfo =
  ifidx :: u32
  ifaddr :: IfAddr
  scope :: byte
  flags :: u32

record NeighborInfo =
  n_ifidx :: u32
  n_state :: u16
  n_addr :: "InAddrAny option"
  n_mac :: "bytes option"

text \<open>The template parameter of \<open>parse\<close>.\<close>

datatype Addr = in_addr | in6_addr

subsection \<open>Helpers of netlink.hpp, util.hpp and stdplus\<close>

text \<open>Modelled from the spec: \<open>extractRtData<T>\<close> (netlink.hpp) is missing.  Spec 4.1,
  \<open>extractFixedHeader<T>(buffer) -> (T, remainder)\<close>: fails if the buffer is shorter than
  \<open>sizeof(T)\<close>; the remainder is the buffer with the header bytes stripped.  One instance
  for each of the three header structures.\<close>

definition extractRtData_rtmsg :: "bytes \<Rightarrow> error + (rtmsg \<times> bytes)" where
  "extractRtData_rtmsg data =
     (if length data < 12 then Inl TruncatedBuffer
      else Inr (rtmsg_of (take 12 data), drop 12 data))"

definition extractRtData_ifaddrmsg :: "bytes \<Rightarrow> error + (ifaddrmsg \<times> bytes)" where
  "extractRtData_ifaddrmsg data =
     (if length data < 8 then Inl TruncatedBuffer
      else Inr (ifaddrmsg_of (take 8 data), drop 8 data))"

definition extractRtData_ndmsg :: "bytes \<Rightarrow> error + (ndmsg \<times> bytes)" where
  "extractRtData_ndmsg data =
     (if length data < 12 then Inl TruncatedBuffer
      else Inr (ndmsg_of (take 12 data), drop 12 data))"

text \<open>Modelled from the spec: \<open>extractRtAttr\<close> (netlink.cpp) is missing.  Spec 4.1,
  \<open>nextAttribute\<close>: reads the record header, fails if the declared length is smaller than the
  header size or larger than the buffer; the payload is \<open>buffer[header_size .. length]\<close>; the
  remainder begins at the length rounded up to a multiple of 4, and the call fails if that
  exceeds the buffer length.  A non-empty buffer smaller than a record header is a failure.\<close>

definition extractRtAttr :: "bytes \<Rightarrow> error + ((rtattr \<times> bytes) \<times> bytes)" where
  "extractRtAttr data =
     (if length data < RTA_LENGTH0 then Inl TruncatedBuffer
      else
        let hdr = rtattr_of (take RTA_LENGTH0 data); len = unat (rta_len hdr) in
        if len < RTA_LENGTH0 then Inl InvalidLength
        else if length data < len then Inl TruncatedBuffer
        else if length data < RTA_ALIGN len then Inl TruncatedBuffer
        else Inr ((hdr, take (len - RTA_LENGTH0) (drop RTA_LENGTH0 data)),
                  drop (RTA_ALIGN len) data))"

text \<open>Modelled from the spec: \<open>addrFromBuf\<close> (util.hpp) is missing.  Spec 4.2: \<open>AF_INET\<close>
  requires a 4-byte payload, \<open>AF_INET6\<close> a 16-byte payload; any other family, or a payload of
  another length, is a failure.\<close>

definition addrFromBuf :: "byte \<Rightarrow> bytes \<Rightarrow> error + InAddrAny" where
  "addrFromBuf family buf =
     (if family = AF_INET then
        (if length buf \<noteq> 4 then Inl FamilyLengthMismatch else Inr (V4 buf))
      else if family = AF_INET6 then
        (if length buf \<noteq> 16 then Inl FamilyLengthMismatch else Inr (V6 buf))
      else Inl UnsupportedFamily)"

text \<open>Modelled from the spec: \<open>stdplus::raw::copyFromStrict<T>\<close> and
  \<open>stdplus::raw::copyFrom<T>\<close> belong to a library outside the repository.  Spec 4.5 and 9:
  the strict copy asserts the exact length of the payload, the lenient copy accepts a payload
  at least as long as the target and copies its leading bytes.\<close>

definition copyFromStrict_u32 :: "bytes \<Rightarrow> error + u32" where
  "copyFromStrict_u32 data =
     (if length data \<noteq> 4 then Inl SizeMismatch else Inr (host_word data))"

definition copyFromStrict_Addr :: "Addr \<Rightarrow> bytes \<Rightarrow> error + InAddrAny" where
  "copyFromStrict_Addr A data =
     (case A of
        in_addr \<Rightarrow> (if length data \<noteq> 4 then Inl SizeMismatch else Inr (V4 data))
      | in6_addr \<Rightarrow> (if length data \<noteq> 16 then Inl SizeMismatch else Inr (V6 data)))"

definition copyFrom_ether_addr :: "bytes \<Rightarrow> error + bytes" where
  "copyFrom_ether_addr data =
     (if length data < 6 then Inl SizeMismatch else Inr (take 6 data))"

subsection \<open>The attribute loop\<close>

text \<open>
  All three decoders scan the attributes with the same loop,
  \<^verbatim>\<open>while (!msg.empty()) { auto [hdr, data] = extractRtAttr(msg); ... }\<close>,
  and differ in the loop body only.  The loop is a recursive function over the remaining
  buffer, the body a function from the record and the decoder's local variables to the
  updated variables or the exception it throws.
\<close>

function (sequential) rtattr_loop ::
  "(rtattr \<Rightarrow> bytes \<Rightarrow> 's \<Rightarrow> error + 's) \<Rightarrow> bytes \<Rightarrow> 's \<Rightarrow> error + 's" where
  "rtattr_loop body [] s = Inr s"
| "rtattr_loop body (b # bs) s =
     (case extractRtAttr (b # bs) of
        Inl e \<Rightarrow> Inl e
      | Inr (rec, msg') \<Rightarrow>
          (case body (fst rec) (snd rec) s of
             Inl e \<Rightarrow> Inl e
           | Inr s' \<Rightarrow> rtattr_loop body msg' s'))"
  by pat_completeness auto
termination
  by (relation "measure (\<lambda>(body, msg, s). length msg)")
     (auto simp: extractRtAttr_def RTA_ALIGN_def RTA_LENGTH0_def Let_def split: if_splits)

subsection \<open>Route decoder\<close>

text \<open>The body of the loop of \<open>parse<Addr>\<close>: the \<open>switch\<close> on \<open>hdr.rta_type\<close>; the local
  variables are \<open>ifIdx\<close> and \<open>gw\<close>.\<close>

definition parse_body ::
  "Addr \<Rightarrow> rtattr \<Rightarrow> bytes \<Rightarrow> u32 option \<times> InAddrAny option
     \<Rightarrow> error + (u32 option \<times> InAddrAny option)" where
  "parse_body A hdr data st =
     (case st of (ifIdx, gw) \<Rightarrow>
        if rta_type hdr = RTA_OIF then
          (case copyFromStrict_u32 data of
             Inl e \<Rightarrow> Inl e
           | Inr v \<Rightarrow> Inr (Some v, gw))
        else if rta_type hdr = RTA_GATEWAY then
          (case copyFromStrict_Addr A data of
             Inl e \<Rightarrow> Inl e
           | Inr a \<Rightarrow> Inr (ifIdx, Some a))
        else Inr (ifIdx, gw))"

definition parse :: "Addr \<Rightarrow> bytes \<Rightarrow> error + (u32 \<times> InAddrAny) option" where
  "parse A msg =
     (case rtattr_loop (parse_body A) msg (None, None) of
        Inl e \<Rightarrow> Inl e
      | Inr (ifIdx, gw) \<Rightarrow>
          (case ifIdx of
             None \<Rightarrow> Inr None
           | Some i \<Rightarrow> (case gw of None \<Rightarrow> Inr None | Some g \<Rightarrow> Inr (Some (i, g)))))"

definition gatewayFromRtm :: "bytes \<Rightarrow> error + (u32 \<times> InAddrAny) option" where
  "gatewayFromRtm msg0 =
     (case extractRtData_rtmsg msg0 of
        Inl e \<Rightarrow> Inl e
      | Inr (rtm, msg) \<Rightarrow>
          if rtm_table rtm \<noteq> RT_TABLE_MAIN \<or> rtm_dst_len rtm \<noteq> 0 then Inr None
          else if rtm_family rtm = AF_INET then parse in_addr msg
          else if rtm_family rtm = AF_INET6 then parse in6_addr msg
          else Inr None)"

subsection \<open>Address decoder\<close>

text \<open>The loop of \<open>addrFromRtm\<close> works on \<open>ret\<close> and on the local \<open>addr\<close>; the header's
  family is read inside the body; \<open>addr'\<close> is the source's local \<open>addr\<close>.  A default-constructed \<open>IfAddr\<close> stands in \<open>ret\<close> until the
  loop is over.\<close>

definition addr_body ::
  "ifaddrmsg \<Rightarrow> rtattr \<Rightarrow> bytes \<Rightarrow> AddressInfo \<times> InAddrAny option
     \<Rightarrow> error + (AddressInfo \<times> InAddrAny option)" where
  "addr_body ifa hdr data st =
     (case st of (ret, addr') \<Rightarrow>
        if rta_type hdr = IFA_ADDRESS then
          (case addrFromBuf (ifa_family ifa) data of
             Inl e \<Rightarrow> Inl e
           | Inr a \<Rightarrow> Inr (ret, Some a))
        else if rta_type hdr = IFA_FLAGS then
          (case copyFromStrict_u32 data of
             Inl e \<Rightarrow> Inl e
           | Inr v \<Rightarrow> Inr (ret\<lparr>flags := v\<rparr>, addr'))
        else Inr (ret, addr'))"

definition addrFromRtm :: "bytes \<Rightarrow> error + AddressInfo" where
  "addrFromRtm msg0 =
     (case extractRtData_ifaddrmsg msg0 of
        Inl e \<Rightarrow> Inl e
      | Inr (ifa, msg) \<Rightarrow>
          let ret = \<lparr>ifidx = ifa_index ifa,
                     ifaddr = \<lparr>addr = V4 [0, 0, 0, 0], pfx = 0\<rparr>,
                     scope = ifa_scope ifa,
                     flags = ucast (ifa_flags ifa)\<rparr>
          in (case rtattr_loop (addr_body ifa) msg (ret, None) of
                Inl e \<Rightarrow> Inl e
              | Inr (ret', addr') \<Rightarrow>
                  (case addr' of
                     None \<Rightarrow> Inl MissingAddress
                   | Some a \<Rightarrow> Inr (ret'\<lparr>ifaddr := \<lparr>addr = a, pfx = ifa_prefixlen ifa\<rparr>\<rparr>))))"

subsection \<open>Neighbor decoder\<close>

definition neigh_body ::
  "ndmsg \<Rightarrow> rtattr \<Rightarrow> bytes \<Rightarrow> NeighborInfo \<Rightarrow> error + NeighborInfo" where
  "neigh_body ndm hdr data ret =
     (if rta_type hdr = NDA_LLADDR then
        (case copyFrom_ether_addr data of
           Inl e \<Rightarrow> Inl e
         | Inr m \<Rightarrow> Inr (ret\<lparr>n_mac := Some m\<rparr>))
      else if rta_type hdr = NDA_DST then
        (case addrFromBuf (ndm_family ndm) data of
           Inl e \<Rightarrow> Inl e
         | Inr a \<Rightarrow> Inr (ret\<lparr>n_addr := Some a\<rparr>))
      else Inr ret)"

definition neighFromRtm :: "bytes \<Rightarrow> error + NeighborInfo" where
  "neighFromRtm msg0 =
     (case extractRtData_ndmsg msg0 of
        Inl e \<Rightarrow> Inl e
      | Inr (ndm, msg) \<Rightarrow>
          rtattr_loop (neigh_body ndm) msg
            \<lparr>n_ifidx = ndm_ifindex ndm, n_state = ndm_state ndm, n_addr = None, n_mac = None\<rparr>)"

subsection \<open>The attribute stream of a buffer\<close>

text \<open>The records that repeated calls of \<open>extractRtAttr\<close> yield until the buffer is empty,
  in stream order; the first failing call is the error.\<close>

function (sequential) rtattrs :: "bytes \<Rightarrow> error + (rtattr \<times> bytes) list" where
  "rtattrs [] = Inr []"
| "rtattrs (b # bs) =
     (case extractRtAttr (b # bs) of
        Inl e \<Rightarrow> Inl e
      | Inr (rec, msg') \<Rightarrow>
          (case rtattrs msg' of
             Inl e \<Rightarrow> Inl e
           | Inr rs \<Rightarrow> Inr (rec # rs)))"
  by pat_completeness auto
termination
  by (relation "measure length")
     (auto simp: extractRtAttr_def RTA_ALIGN_def RTA_LENGTH0_def Let_def split: if_splits)

text \<open>The payload of the last record of type \<open>t\<close> in a stream, if there is one.\<close>

definition last_of :: "u16 \<Rightarrow> (rtattr \<times> bytes) list \<Rightarrow> bytes option" where
  "last_of t recs =
     (case filter (\<lambda>r. rta_type (fst r) = t) recs of
        [] \<Rightarrow> None
      | r # rs \<Rightarrow> Some (snd (last (r # rs))))"

text \<open>The loop, run over a list of records instead of a buffer.\<close>

fun run_body ::
  "(rtattr \<Rightarrow> bytes \<Rightarrow> 's \<Rightarrow> error + 's) \<Rightarrow> (rtattr \<times> bytes) list \<Rightarrow> 's \<Rightarrow> error + 's" where
  "run_body body [] s = Inr s"
| "run_body body (r # rs) s =
     (case body (fst r) (snd r) s of
        Inl e \<Rightarrow> Inl e
      | Inr s' \<Rightarrow> run_body body rs s')"

section \<open>Properties\<close>

subsection \<open>The loop and the attribute stream\<close>

lemma extractRtAttr_shorter:
  "extractRtAttr data = Inr (r, rest) \<Longrightarrow> length rest < length data"
  by (auto simp: extractRtAttr_def RTA_ALIGN_def RTA_LENGTH0_def Let_def split: if_splits)

lemma rtattr_loop_run_body:
  "rtattrs msg = Inr recs \<Longrightarrow> rtattr_loop body msg s = run_body body recs s"
proof (induction msg arbitrary: recs s rule: rtattrs.induct)
  case 1
  then show ?case by simp
next
  case (2 b bs)
  then show ?case
    by (auto split: sum.splits prod.splits)
qed

lemma rtattr_loop_stream:
  "rtattr_loop body msg s = Inr s' \<Longrightarrow> \<exists>recs. rtattrs msg = Inr recs"
proof (induction msg arbitrary: s rule: rtattrs.induct)
  case 1
  then show ?case by simp
next
  case (2 b bs)
  from "2.prems" obtain r msg' where ex: "extractRtAttr (b # bs) = Inr (r, msg')"
    by (auto split: sum.splits)
  with "2.prems" obtain s1 where "rtattr_loop body msg' s1 = Inr s'"
    by (auto split: sum.splits)
  with "2.IH" [OF ex refl] obtain rs where "rtattrs msg' = Inr rs"
    by blast
  with ex show ?case by simp
qed

lemma extractRtData_rtmsg_append:
  "length hdr = 12 \<Longrightarrow> extractRtData_rtmsg (hdr @ rest) = Inr (rtmsg_of hdr, rest)"
  by (simp add: extractRtData_rtmsg_def)

lemma extractRtData_ifaddrmsg_append:
  "length hdr = 8 \<Longrightarrow> extractRtData_ifaddrmsg (hdr @ rest) = Inr (ifaddrmsg_of hdr, rest)"
  by (simp add: extractRtData_ifaddrmsg_def)

lemma extractRtData_ndmsg_append:
  "length hdr = 12 \<Longrightarrow> extractRtData_ndmsg (hdr @ rest) = Inr (ndmsg_of hdr, rest)"
  by (simp add: extractRtData_ndmsg_def)

lemma last_of_Nil: "last_of t [] = None"
  by (simp add: last_of_def)

lemma last_of_Cons:
  "last_of t (r # rs) =
     (case last_of t rs of
        Some d \<Rightarrow> Some d
      | None \<Rightarrow> if rta_type (fst r) = t then Some (snd r) else None)"
  by (simp add: last_of_def split: list.splits)

lemma last_of_None_iff:
  "last_of t recs = None \<longleftrightarrow> (\<forall>r\<in>set recs. rta_type (fst r) \<noteq> t)"
  by (induction recs) (auto simp: last_of_Nil last_of_Cons split: option.splits)

lemma last_of_Some_iff:
  "(\<exists>d. last_of t recs = Some d) \<longleftrightarrow> (\<exists>r\<in>set recs. rta_type (fst r) = t)"
  using last_of_None_iff [of t recs] by (cases "last_of t recs") auto

lemma last_of_filter_cong:
  "filter (\<lambda>r. rta_type (fst r) = t) recs' = filter (\<lambda>r. rta_type (fst r) = t) recs \<Longrightarrow>
   last_of t recs' = last_of t recs"
  by (simp add: last_of_def)

text \<open>\<open>last_of\<close> is the last occurrence: whatever precedes it, the record of type \<open>t\<close> that no
  record of type \<open>t\<close> follows is the one found.\<close>

lemma last_of_append_last:
  "rta_type (fst r) = t \<Longrightarrow> \<forall>z\<in>set zs. rta_type (fst z) \<noteq> t \<Longrightarrow>
   last_of t (xs @ r # zs) = Some (snd r)"
  by (induction xs) (auto simp: last_of_Cons last_of_None_iff [THEN iffD2] split: option.splits)

lemma run_body_filter:
  assumes "\<And>r s. \<not> P r \<Longrightarrow> body (fst r) (snd r) s = Inr s"
  shows "run_body body (filter P recs) s = run_body body recs s"
  using assms by (induction recs arbitrary: s) (auto split: sum.splits)

lemma rtattr_loop_filter:
  assumes "rtattrs m = Inr recs" and "rtattrs m' = Inr (filter P recs)"
    and "\<And>r s. \<not> P r \<Longrightarrow> body (fst r) (snd r) s = Inr s"
  shows "rtattr_loop body m s = rtattr_loop body m' s"
  using assms by (simp add: rtattr_loop_run_body run_body_filter)

lemma RTA_ALIGN_bounds:
  "len \<le> RTA_ALIGN len \<and> RTA_ALIGN len < len + 4 \<and> 4 dvd RTA_ALIGN len"
  by (simp add: RTA_ALIGN_def) presburger

lemma rtattrs_nonempty:
  "m \<noteq> [] \<Longrightarrow>
   rtattrs m =
     (case extractRtAttr m of
        Inl e \<Rightarrow> Inl e
      | Inr (rec, msg') \<Rightarrow> (case rtattrs msg' of Inl e \<Rightarrow> Inl e | Inr rs \<Rightarrow> Inr (rec # rs)))"
  by (cases m) simp_all

lemma extractRtAttr_prefix:
  assumes "extractRtAttr m = Inr (r, rest)"
  shows "extractRtAttr (take (length m - length rest) m @ X) = Inr (r, X) \<and>
         take (length m - length rest) m \<noteq> []"
proof -
  let ?len = "unat (rta_len (rtattr_of (take 4 m)))"
  from assms have ok: "4 \<le> length m" "4 \<le> ?len" "?len \<le> length m" "RTA_ALIGN ?len \<le> length m"
    and r: "r = (rtattr_of (take 4 m), take (?len - 4) (drop 4 m))"
    and rest: "rest = drop (RTA_ALIGN ?len) m"
    by (auto simp: extractRtAttr_def RTA_LENGTH0_def Let_def split: if_splits)
  from RTA_ALIGN_bounds [of ?len] ok have al: "4 \<le> RTA_ALIGN ?len" "?len \<le> RTA_ALIGN ?len"
    by linarith+
  from ok rest have k: "length m - length rest = RTA_ALIGN ?len" by simp
  have t4: "take 4 (take (RTA_ALIGN ?len) m @ X) = take 4 m"
    using al ok by (simp add: min_def)
  have d4: "drop 4 (take (RTA_ALIGN ?len) m @ X) = take (RTA_ALIGN ?len - 4) (drop 4 m) @ X"
    using al ok by (simp add: drop_take)
  have pay: "take (?len - 4) (drop 4 (take (RTA_ALIGN ?len) m @ X)) = take (?len - 4) (drop 4 m)"
    unfolding d4 using al ok by (simp add: min_def)
  have "extractRtAttr (take (RTA_ALIGN ?len) m @ X) = Inr (r, X)"
    unfolding extractRtAttr_def RTA_LENGTH0_def Let_def t4 pay r using ok al by simp
  moreover have "take (RTA_ALIGN ?len) m \<noteq> []"
    using ok al by auto
  ultimately show ?thesis
    unfolding k by simp
qed

text \<open>A stream with any of its records removed is again the stream of a buffer.\<close>

lemma filtered_stream_exists:
  "rtattrs m = Inr recs \<Longrightarrow> \<exists>m'. rtattrs m' = Inr (filter P recs)"
proof (induction m arbitrary: recs rule: rtattrs.induct)
  case 1
  then show ?case by (auto intro: exI [of _ "[]"])
next
  case (2 b bs)
  from "2.prems" obtain r rest rs where ex: "extractRtAttr (b # bs) = Inr (r, rest)"
    and rs: "rtattrs rest = Inr rs" and recs: "recs = r # rs"
    by (auto split: sum.splits)
  from "2.IH" [OF ex refl rs] obtain m'' where m'': "rtattrs m'' = Inr (filter P rs)"
    by blast
  show ?case
  proof (cases "P r")
    case False
    with m'' recs show ?thesis by auto
  next
    case True
    let ?pre = "take (length (b # bs) - length rest) (b # bs)"
    from extractRtAttr_prefix [OF ex, of m'']
    have "extractRtAttr (?pre @ m'') = Inr (r, m'')" and "?pre @ m'' \<noteq> []"
      by simp_all
    with m'' have "rtattrs (?pre @ m'') = Inr (r # filter P rs)"
      by (simp add: rtattrs_nonempty)
    with True recs show ?thesis by auto
  qed
qed

text \<open>Unfolding the model on a concrete buffer.\<close>

lemmas wire_defs =
  host_word_def rtmsg_of_def ifaddrmsg_of_def ndmsg_of_def rtattr_of_def
  AF_INET_def AF_INET6_def RT_TABLE_MAIN_def RTA_OIF_def RTA_GATEWAY_def
  IFA_ADDRESS_def IFA_FLAGS_def NDA_DST_def NDA_LLADDR_def RTA_ALIGN_def RTA_LENGTH0_def

lemmas helper_defs =
  extractRtData_rtmsg_def extractRtData_ifaddrmsg_def extractRtData_ndmsg_def
  extractRtAttr_def addrFromBuf_def copyFromStrict_u32_def copyFromStrict_Addr_def
  copyFrom_ether_addr_def Let_def

lemmas decoder_defs =
  parse_body_def parse_def gatewayFromRtm_def addr_body_def addrFromRtm_def
  neigh_body_def neighFromRtm_def last_of_def

lemmas run_defs = wire_defs helper_defs decoder_defs

subsection \<open>What the loop bodies compute\<close>

text \<open>Unrecognized types fall through the \<open>switch\<close> or the \<open>if\<close> chain and leave the local
  variables as they are.\<close>

lemma parse_body_skip:
  "rta_type hdr \<noteq> RTA_OIF \<Longrightarrow> rta_type hdr \<noteq> RTA_GATEWAY \<Longrightarrow>
   parse_body A hdr data st = Inr st"
  by (cases st) (simp add: parse_body_def)

lemma addr_body_skip:
  "rta_type hdr \<noteq> IFA_ADDRESS \<Longrightarrow> rta_type hdr \<noteq> IFA_FLAGS \<Longrightarrow>
   addr_body ifa hdr data st = Inr st"
  by (cases st) (simp add: addr_body_def)

lemma neigh_body_skip:
  "rta_type hdr \<noteq> NDA_LLADDR \<Longrightarrow> rta_type hdr \<noteq> NDA_DST \<Longrightarrow>
   neigh_body ndm hdr data ret = Inr ret"
  by (simp add: neigh_body_def)

text \<open>The route loop: each variable holds the value of the last record of its type; the
  loop runs to the end exactly when every payload has the width its copy asserts.\<close>

lemma run_parse_body:
  "run_body (parse_body A) recs (i, g) = Inr (i', g') \<Longrightarrow>
   i' = (case last_of RTA_OIF recs of None \<Rightarrow> i | Some d \<Rightarrow> Some (host_word d)) \<and>
   g' = (case last_of RTA_GATEWAY recs of
           None \<Rightarrow> g
         | Some d \<Rightarrow> Some (case A of in_addr \<Rightarrow> V4 d | in6_addr \<Rightarrow> V6 d))"
proof (induction recs arbitrary: i g)
  case Nil
  then show ?case by (simp add: last_of_Nil)
next
  case (Cons r rs)
  then show ?case
    by (auto simp: last_of_Cons parse_body_def copyFromStrict_u32_def copyFromStrict_Addr_def
          RTA_OIF_def RTA_GATEWAY_def
        split: sum.splits if_splits option.splits Addr.splits)
qed

lemma run_parse_body_sizes:
  "run_body (parse_body A) recs st = Inr st' \<Longrightarrow>
   \<forall>r\<in>set recs. (rta_type (fst r) = RTA_OIF \<longrightarrow> length (snd r) = 4) \<and>
                (rta_type (fst r) = RTA_GATEWAY \<longrightarrow>
                   length (snd r) = (case A of in_addr \<Rightarrow> 4 | in6_addr \<Rightarrow> 16))"
proof (induction recs arbitrary: st)
  case Nil
  then show ?case by simp
next
  case (Cons r rs)
  show ?case
  proof (cases "parse_body A (fst r) (snd r) st")
    case (Inl e)
    with Cons.prems show ?thesis by simp
  next
    case (Inr st1)
    with Cons.prems have "run_body (parse_body A) rs st1 = Inr st'" by simp
    note ih = Cons.IH [OF this]
    obtain i g where "st = (i, g)" by (cases st)
    with Inr have "(rta_type (fst r) = RTA_OIF \<longrightarrow> length (snd r) = 4) \<and>
                (rta_type (fst r) = RTA_GATEWAY \<longrightarrow>
                   length (snd r) = (case A of in_addr \<Rightarrow> 4 | in6_addr \<Rightarrow> 16))"
      by (auto simp: parse_body_def copyFromStrict_u32_def copyFromStrict_Addr_def
            RTA_OIF_def RTA_GATEWAY_def split: if_splits Addr.splits)
    with ih show ?thesis by simp
  qed
qed

lemma run_parse_body_ok:
  "\<forall>r\<in>set recs. (rta_type (fst r) = RTA_OIF \<longrightarrow> length (snd r) = 4) \<and>
                (rta_type (fst r) = RTA_GATEWAY \<longrightarrow>
                   length (snd r) = (case A of in_addr \<Rightarrow> 4 | in6_addr \<Rightarrow> 16)) \<Longrightarrow>
   \<exists>st'. run_body (parse_body A) recs st = Inr st'"
proof (induction recs arbitrary: st)
  case Nil
  then show ?case by simp
next
  case (Cons r rs)
  obtain i g where st: "st = (i, g)" by (cases st)
  from Cons.prems have "\<not> isl (parse_body A (fst r) (snd r) st)"
    unfolding st
    by (auto simp: parse_body_def copyFromStrict_u32_def copyFromStrict_Addr_def
          split: Addr.splits)
  then obtain st1 where "parse_body A (fst r) (snd r) st = Inr st1"
    by (cases "parse_body A (fst r) (snd r) st") simp_all
  moreover from Cons.prems have "\<forall>r\<in>set rs. (rta_type (fst r) = RTA_OIF \<longrightarrow> length (snd r) = 4) \<and>
                (rta_type (fst r) = RTA_GATEWAY \<longrightarrow>
                   length (snd r) = (case A of in_addr \<Rightarrow> 4 | in6_addr \<Rightarrow> 16))"
    by simp
  from Cons.IH [OF this] obtain st' where "run_body (parse_body A) rs st1 = Inr st'"
    by blast
  ultimately show ?case by simp
qed

lemma parse_result:
  assumes "rtattrs rest = Inr recs" and "parse A rest = Inr res"
  shows "res =
     (case last_of RTA_OIF recs of
        None \<Rightarrow> None
      | Some di \<Rightarrow>
          (case last_of RTA_GATEWAY recs of
             None \<Rightarrow> None
           | Some dg \<Rightarrow> Some (host_word di, case A of in_addr \<Rightarrow> V4 dg | in6_addr \<Rightarrow> V6 dg)))"
proof -
  from assms obtain i g where run: "run_body (parse_body A) recs (None, None) = Inr (i, g)"
    by (auto simp: parse_def rtattr_loop_run_body split: sum.splits)
  with assms have res: "res = (case i of None \<Rightarrow> None
      | Some i' \<Rightarrow> (case g of None \<Rightarrow> None | Some g' \<Rightarrow> Some (i', g')))"
    by (auto simp: parse_def rtattr_loop_run_body split: option.splits)
  from run_parse_body [OF run] show ?thesis
    unfolding res by (auto split: option.splits)
qed

lemma gatewayFromRtm_parse:
  "extractRtData_rtmsg msg = Inr (rtm, rest) \<Longrightarrow>
   rtm_table rtm = RT_TABLE_MAIN \<Longrightarrow> rtm_dst_len rtm = 0 \<Longrightarrow>
   rtm_family rtm = AF_INET \<or> rtm_family rtm = AF_INET6 \<Longrightarrow>
   gatewayFromRtm msg = parse (if rtm_family rtm = AF_INET then in_addr else in6_addr) rest"
  by (auto simp: gatewayFromRtm_def)

lemma gatewayFromRtm_Some:
  assumes "extractRtData_rtmsg msg = Inr (rtm, rest)" and "gatewayFromRtm msg = Inr (Some p)"
  shows "gatewayFromRtm msg = parse (if rtm_family rtm = AF_INET then in_addr else in6_addr) rest"
  using assms by (auto simp: gatewayFromRtm_def split: if_splits)

text \<open>On a default route of a supported family the route decoder throws exactly when the
  stream is malformed or a payload of \<open>RTA_OIF\<close> or \<open>RTA_GATEWAY\<close> has the wrong width.\<close>

lemma gatewayFromRtm_succeeds_iff:
  assumes "extractRtData_rtmsg msg = Inr (rtm, rest)"
    and "rtm_table rtm = RT_TABLE_MAIN" and "rtm_dst_len rtm = 0"
    and "rtm_family rtm = AF_INET \<or> rtm_family rtm = AF_INET6"
  shows "\<not> isl (gatewayFromRtm msg) \<longleftrightarrow>
     (\<exists>recs. rtattrs rest = Inr recs \<and>
        (\<forall>r\<in>set recs. (rta_type (fst r) = RTA_OIF \<longrightarrow> length (snd r) = 4) \<and>
                (rta_type (fst r) = RTA_GATEWAY \<longrightarrow>
                   length (snd r) = (if rtm_family rtm = AF_INET then 4 else 16))))"
proof -
  let ?A = "if rtm_family rtm = AF_INET then in_addr else in6_addr"
  have gw: "gatewayFromRtm msg = parse ?A rest"
    by (rule gatewayFromRtm_parse [OF assms])
  have sz: "(case ?A of in_addr \<Rightarrow> 4 | in6_addr \<Rightarrow> 16) = (if rtm_family rtm = AF_INET then 4 else (16::nat))"
    by simp
  show ?thesis
  proof
    assume "\<not> isl (gatewayFromRtm msg)"
    with gw obtain st where loop: "rtattr_loop (parse_body ?A) rest (None, None) = Inr st"
      by (auto simp: parse_def split: sum.splits)
    from rtattr_loop_stream [OF this] obtain recs where recs: "rtattrs rest = Inr recs" ..
    with loop have "run_body (parse_body ?A) recs (None, None) = Inr st"
      by (simp add: rtattr_loop_run_body)
    from run_parse_body_sizes [OF this] recs sz
    show "\<exists>recs. rtattrs rest = Inr recs \<and>
        (\<forall>r\<in>set recs. (rta_type (fst r) = RTA_OIF \<longrightarrow> length (snd r) = 4) \<and>
                (rta_type (fst r) = RTA_GATEWAY \<longrightarrow>
                   length (snd r) = (if rtm_family rtm = AF_INET then 4 else 16)))"
      by (metis (no_types, lifting))
  next
    assume "\<exists>recs. rtattrs rest = Inr recs \<and>
        (\<forall>r\<in>set recs. (rta_type (fst r) = RTA_OIF \<longrightarrow> length (snd r) = 4) \<and>
                (rta_type (fst r) = RTA_GATEWAY \<longrightarrow>
                   length (snd r) = (if rtm_family rtm = AF_INET then 4 else 16)))"
    then obtain recs where recs: "rtattrs rest = Inr recs"
      and "\<forall>r\<in>set recs. (rta_type (fst r) = RTA_OIF \<longrightarrow> length (snd r) = 4) \<and>
                (rta_type (fst r) = RTA_GATEWAY \<longrightarrow>
                   length (snd r) = (case ?A of in_addr \<Rightarrow> 4 | in6_addr \<Rightarrow> 16))"
      unfolding sz by blast
    from run_parse_body_ok [OF this(2)] obtain st where
      "run_body (parse_body ?A) recs (None, None) = Inr st" by blast
    with recs gw show "\<not> isl (gatewayFromRtm msg)"
      by (cases st) (auto simp: parse_def rtattr_loop_run_body split: option.splits)
  qed
qed

text \<open>The address loop writes \<open>ret.flags\<close> and \<open>addr\<close> and nothing else.\<close>

lemma run_addr_body:
  "run_body (addr_body ifa) recs (ret, a) = Inr (ret', a') \<Longrightarrow>
   ifidx ret' = ifidx ret \<and> scope ret' = scope ret \<and> ifaddr ret' = ifaddr ret \<and>
   flags ret' = (case last_of IFA_FLAGS recs of None \<Rightarrow> flags ret | Some d \<Rightarrow> host_word d) \<and>
   (case last_of IFA_ADDRESS recs of
      None \<Rightarrow> a' = a
    | Some d \<Rightarrow> \<exists>x. addrFromBuf (ifa_family ifa) d = Inr x \<and> a' = Some x)"
proof (induction recs arbitrary: ret a)
  case Nil
  then show ?case by (simp add: last_of_Nil)
next
  case (Cons r rs)
  show ?case
  proof (cases "addr_body ifa (fst r) (snd r) (ret, a)")
    case (Inl e)
    with Cons.prems show ?thesis by simp
  next
    case (Inr st)
    obtain ret1 a1 where st: "st = (ret1, a1)" by (cases st)
    from Cons.prems Inr st have "run_body (addr_body ifa) rs (ret1, a1) = Inr (ret', a')"
      by simp
    note ih = Cons.IH [OF this]
    from Inr st show ?thesis
      using ih
      by (auto simp: last_of_Cons addr_body_def copyFromStrict_u32_def
            IFA_ADDRESS_def IFA_FLAGS_def
          split: sum.splits if_splits option.splits)
  qed
qed

lemma run_addr_body_flags_only:
  "\<forall>r\<in>set recs. rta_type (fst r) \<noteq> IFA_ADDRESS \<Longrightarrow>
   \<forall>r\<in>set recs. rta_type (fst r) = IFA_FLAGS \<longrightarrow> length (snd r) = 4 \<Longrightarrow>
   \<exists>ret'. run_body (addr_body ifa) recs (ret, a) = Inr (ret', a)"
  by (induction recs arbitrary: ret) (auto simp: addr_body_def copyFromStrict_u32_def)

lemma addrFromRtm_unfold:
  assumes "extractRtData_ifaddrmsg msg = Inr (ifa, rest)" and "rtattrs rest = Inr recs"
  shows "addrFromRtm msg =
     (case run_body (addr_body ifa) recs
        (\<lparr>ifidx = ifa_index ifa, ifaddr = \<lparr>addr = V4 [0, 0, 0, 0], pfx = 0\<rparr>,
          scope = ifa_scope ifa, flags = ucast (ifa_flags ifa)\<rparr>, None) of
        Inl e \<Rightarrow> Inl e
      | Inr (ret', addr') \<Rightarrow>
          (case addr' of
             None \<Rightarrow> Inl MissingAddress
           | Some a \<Rightarrow> Inr (ret'\<lparr>ifaddr := \<lparr>addr = a, pfx = ifa_prefixlen ifa\<rparr>\<rparr>)))"
  using assms by (simp add: addrFromRtm_def Let_def rtattr_loop_run_body)

lemma addrFromRtm_run:
  assumes "extractRtData_ifaddrmsg msg = Inr (ifa, rest)" and "rtattrs rest = Inr recs"
    and "addrFromRtm msg = Inr ai"
  shows "\<exists>ret' a.
     run_body (addr_body ifa) recs
       (\<lparr>ifidx = ifa_index ifa, ifaddr = \<lparr>addr = V4 [0, 0, 0, 0], pfx = 0\<rparr>,
         scope = ifa_scope ifa, flags = ucast (ifa_flags ifa)\<rparr>, None) = Inr (ret', Some a) \<and>
     ai = ret'\<lparr>ifaddr := \<lparr>addr = a, pfx = ifa_prefixlen ifa\<rparr>\<rparr>"
  using assms
  by (auto simp: addrFromRtm_def Let_def rtattr_loop_run_body split: sum.splits option.splits)

text \<open>The neighbor loop writes \<open>ret.mac\<close> and \<open>ret.addr\<close>.\<close>

lemma run_neigh_body:
  "run_body (neigh_body ndm) recs ret = Inr ret' \<Longrightarrow>
   n_ifidx ret' = n_ifidx ret \<and> n_state ret' = n_state ret \<and>
   n_mac ret' = (case last_of NDA_LLADDR recs of None \<Rightarrow> n_mac ret | Some d \<Rightarrow> Some (take 6 d)) \<and>
   (case last_of NDA_DST recs of
      None \<Rightarrow> n_addr ret' = n_addr ret
    | Some d \<Rightarrow> \<exists>x. addrFromBuf (ndm_family ndm) d = Inr x \<and> n_addr ret' = Some x)"
proof (induction recs arbitrary: ret)
  case Nil
  then show ?case by (simp add: last_of_Nil)
next
  case (Cons r rs)
  show ?case
  proof (cases "neigh_body ndm (fst r) (snd r) ret")
    case (Inl e)
    with Cons.prems show ?thesis by simp
  next
    case (Inr ret1)
    with Cons.prems have "run_body (neigh_body ndm) rs ret1 = Inr ret'"
      by simp
    note ih = Cons.IH [OF this]
    from Inr show ?thesis
      using ih
      by (auto simp: last_of_Cons neigh_body_def copyFrom_ether_addr_def
            NDA_DST_def NDA_LLADDR_def
          split: sum.splits if_splits option.splits)
  qed
qed

lemma run_neigh_body_ok:
  "\<forall>r\<in>set recs. (rta_type (fst r) = NDA_LLADDR \<longrightarrow> 6 \<le> length (snd r)) \<and>
                (rta_type (fst r) = NDA_DST \<longrightarrow> \<not> isl (addrFromBuf (ndm_family ndm) (snd r))) \<Longrightarrow>
   \<exists>ret'. run_body (neigh_body ndm) recs ret = Inr ret'"
proof (induction recs arbitrary: ret)
  case Nil
  then show ?case by simp
next
  case (Cons r rs)
  from Cons.prems have "\<not> isl (neigh_body ndm (fst r) (snd r) ret)"
    by (cases "addrFromBuf (ndm_family ndm) (snd r)")
       (auto simp: neigh_body_def copyFrom_ether_addr_def NDA_DST_def NDA_LLADDR_def)
  then obtain ret1 where "neigh_body ndm (fst r) (snd r) ret = Inr ret1"
    by (cases "neigh_body ndm (fst r) (snd r) ret") simp_all
  moreover from Cons.prems Cons.IH obtain ret' where "run_body (neigh_body ndm) rs ret1 = Inr ret'"
    by auto
  ultimately show ?case by simp
qed

lemma run_neigh_body_short:
  "\<exists>r\<in>set recs. rta_type (fst r) = NDA_LLADDR \<and> length (snd r) < 6 \<Longrightarrow>
   isl (run_body (neigh_body ndm) recs ret)"
proof (induction recs arbitrary: ret)
  case Nil
  then show ?case by simp
next
  case (Cons r rs)
  show ?case
  proof (cases "neigh_body ndm (fst r) (snd r) ret")
    case (Inl e)
    then show ?thesis by simp
  next
    case (Inr ret1)
    with Cons.prems have "\<exists>r\<in>set rs. rta_type (fst r) = NDA_LLADDR \<and> length (snd r) < 6"
      by (auto simp: neigh_body_def copyFrom_ether_addr_def)
    from Cons.IH [OF this] Inr show ?thesis by simp
  qed
qed

lemma neighFromRtm_run:
  assumes "extractRtData_ndmsg msg = Inr (ndm, rest)" and "rtattrs rest = Inr recs"
  shows "neighFromRtm msg =
     run_body (neigh_body ndm) recs
       \<lparr>n_ifidx = ndm_ifindex ndm, n_state = ndm_state ndm, n_addr = None, n_mac = None\<rparr>"
  using assms by (simp add: neighFromRtm_def rtattr_loop_run_body)

text \<open>Every decoder runs to the end of a well-formed stream whose recognized records have
  payloads that their copies accept, however often a type repeats, and returns the values of
  the last records.\<close>

lemma run_addr_body_ok:
  "\<forall>r\<in>set recs.
      (rta_type (fst r) = IFA_ADDRESS \<longrightarrow> \<not> isl (addrFromBuf (ifa_family ifa) (snd r))) \<and>
      (rta_type (fst r) = IFA_FLAGS \<longrightarrow> length (snd r) = 4) \<Longrightarrow>
   \<exists>st'. run_body (addr_body ifa) recs st = Inr st'"
proof (induction recs arbitrary: st)
  case Nil
  then show ?case by simp
next
  case (Cons r rs)
  obtain ret a where st: "st = (ret, a)" by (cases st)
  from Cons.prems have "\<not> isl (addr_body ifa (fst r) (snd r) st)"
    unfolding st
    by (cases "addrFromBuf (ifa_family ifa) (snd r)")
       (auto simp: addr_body_def copyFromStrict_u32_def)
  then obtain st1 where "addr_body ifa (fst r) (snd r) st = Inr st1"
    by (cases "addr_body ifa (fst r) (snd r) st") simp_all
  moreover from Cons.prems have "\<forall>r\<in>set rs.
      (rta_type (fst r) = IFA_ADDRESS \<longrightarrow> \<not> isl (addrFromBuf (ifa_family ifa) (snd r))) \<and>
      (rta_type (fst r) = IFA_FLAGS \<longrightarrow> length (snd r) = 4)"
    by simp
  from Cons.IH [OF this] obtain st' where "run_body (addr_body ifa) rs st1 = Inr st'"
    by blast
  ultimately show ?case by simp
qed

lemma gatewayFromRtm_accepts:
  assumes ex: "extractRtData_rtmsg msg = Inr (rtm, rest)"
    and tbl: "rtm_table rtm = RT_TABLE_MAIN" and dst: "rtm_dst_len rtm = 0"
    and fam: "rtm_family rtm = AF_INET \<or> rtm_family rtm = AF_INET6"
    and recs: "rtattrs rest = Inr recs"
    and sizes: "\<forall>r\<in>set recs.
        (rta_type (fst r) = RTA_OIF \<longrightarrow> length (snd r) = 4) \<and>
        (rta_type (fst r) = RTA_GATEWAY \<longrightarrow>
           length (snd r) = (if rtm_family rtm = AF_INET then 4 else 16))"
    and oif: "last_of RTA_OIF recs = Some di"
    and gw: "last_of RTA_GATEWAY recs = Some dg"
  shows "gatewayFromRtm msg =
     Inr (Some (host_word di, if rtm_family rtm = AF_INET then V4 dg else V6 dg))"
proof -
  let ?A = "if rtm_family rtm = AF_INET then in_addr else in6_addr"
  have g: "gatewayFromRtm msg = parse ?A rest"
    by (rule gatewayFromRtm_parse [OF ex tbl dst fam])
  from sizes have "\<forall>r\<in>set recs.
        (rta_type (fst r) = RTA_OIF \<longrightarrow> length (snd r) = 4) \<and>
        (rta_type (fst r) = RTA_GATEWAY \<longrightarrow>
           length (snd r) = (case ?A of in_addr \<Rightarrow> 4 | in6_addr \<Rightarrow> 16))"
    by simp
  from run_parse_body_ok [OF this] obtain st where
    run: "run_body (parse_body ?A) recs (None, None) = Inr st"
    by blast
  then have "\<not> isl (parse ?A rest)"
    using recs by (cases st) (auto simp: parse_def rtattr_loop_run_body split: option.splits)
  then obtain res where p: "parse ?A rest = Inr res"
    by (cases "parse ?A rest") simp_all
  from parse_result [OF recs p] oif gw
  have "res = Some (host_word di, case ?A of in_addr \<Rightarrow> V4 dg | in6_addr \<Rightarrow> V6 dg)"
    by simp
  with g p show ?thesis by simp
qed

lemma addrFromRtm_accepts:
  assumes ex: "extractRtData_ifaddrmsg msg = Inr (ifa, rest)"
    and recs: "rtattrs rest = Inr recs"
    and sizes: "\<forall>r\<in>set recs.
        (rta_type (fst r) = IFA_ADDRESS \<longrightarrow> \<not> isl (addrFromBuf (ifa_family ifa) (snd r))) \<and>
        (rta_type (fst r) = IFA_FLAGS \<longrightarrow> length (snd r) = 4)"
    and ad: "last_of IFA_ADDRESS recs = Some da"
  shows "\<exists>ai. addrFromRtm msg = Inr ai \<and>
     addrFromBuf (ifa_family ifa) da = Inr (addr (ifaddr ai)) \<and>
     flags ai =
       (case last_of IFA_FLAGS recs of
          None \<Rightarrow> ucast (ifa_flags ifa)
        | Some df \<Rightarrow> host_word df)"
proof -
  let ?ret = "\<lparr>ifidx = ifa_index ifa, ifaddr = \<lparr>addr = V4 [0, 0, 0, 0], pfx = 0\<rparr>,
          scope = ifa_scope ifa, flags = ucast (ifa_flags ifa)\<rparr>"
  from run_addr_body_ok [OF sizes] obtain st where
    "run_body (addr_body ifa) recs (?ret, None) = Inr st"
    by blast
  then obtain ret' a' where run: "run_body (addr_body ifa) recs (?ret, None) = Inr (ret', a')"
    by (cases st) simp
  from run_addr_body [OF run] ad obtain x where
    x: "addrFromBuf (ifa_family ifa) da = Inr x" and a': "a' = Some x"
    by auto
  from run_addr_body [OF run]
  have fl: "flags ret' =
       (case last_of IFA_FLAGS recs of
          None \<Rightarrow> ucast (ifa_flags ifa)
        | Some df \<Rightarrow> host_word df)"
    by (auto split: option.splits)
  from addrFromRtm_unfold [OF ex recs] run a'
  have "addrFromRtm msg = Inr (ret'\<lparr>ifaddr := \<lparr>addr = x, pfx = ifa_prefixlen ifa\<rparr>\<rparr>)"
    by simp
  with x fl show ?thesis by simp
qed

lemma neighFromRtm_accepts:
  assumes ex: "extractRtData_ndmsg msg = Inr (ndm, rest)"
    and recs: "rtattrs rest = Inr recs"
    and sizes: "\<forall>r\<in>set recs.
        (rta_type (fst r) = NDA_LLADDR \<longrightarrow> 6 \<le> length (snd r)) \<and>
        (rta_type (fst r) = NDA_DST \<longrightarrow> \<not> isl (addrFromBuf (ndm_family ndm) (snd r)))"
  shows "\<exists>ni. neighFromRtm msg = Inr ni \<and>
     n_mac ni = map_option (take 6) (last_of NDA_LLADDR recs) \<and>
     (case last_of NDA_DST recs of
        None \<Rightarrow> n_addr ni = None
      | Some d \<Rightarrow> \<exists>x. addrFromBuf (ndm_family ndm) d = Inr x \<and> n_addr ni = Some x)"
proof -
  let ?ret = "\<lparr>n_ifidx = ndm_ifindex ndm, n_state = ndm_state ndm,
                n_addr = None, n_mac = None\<rparr>"
  have unf: "neighFromRtm msg = run_body (neigh_body ndm) recs ?ret"
    by (rule neighFromRtm_run [OF ex recs])
  from run_neigh_body_ok [OF sizes] obtain ni where
    run: "run_body (neigh_body ndm) recs ?ret = Inr ni"
    by blast
  from run_neigh_body [OF run]
  have "n_mac ni = map_option (take 6) (last_of NDA_LLADDR recs)"
    and "(case last_of NDA_DST recs of
        None \<Rightarrow> n_addr ni = None
      | Some d \<Rightarrow> \<exists>x. addrFromBuf (ndm_family ndm) d = Inr x \<and> n_addr ni = Some x)"
    by (auto split: option.splits)
  with unf run show ?thesis by simp
qed

subsection \<open>Attribute iterator\<close>

text \<open>
  C8.  \<open>extractRtAttr\<close>, with \<open>len\<close> the declared length of the record at the front of the
  buffer: the call fails when the buffer cannot hold a record header, when \<open>len\<close> is smaller
  than the header size 4 or larger than the buffer, and when \<open>len\<close> rounded up to a multiple
  of 4 exceeds the buffer; otherwise it succeeds, the payload is the bytes from offset 4 up to
  offset \<open>len\<close>, and the remainder starts at the rounded length.  The rounded length is the
  multiple of 4 in \<open>[len, len + 4)\<close>.
\<close>

theorem extractRtAttr_contract:
  assumes len: "len = unat (rta_len (rtattr_of (take 4 buf)))"
  shows "(length buf < 4 \<or> len < 4 \<or> length buf < len \<or> length buf < RTA_ALIGN len \<longrightarrow>
            isl (extractRtAttr buf)) \<and>
         (4 \<le> length buf \<and> 4 \<le> len \<and> RTA_ALIGN len \<le> length buf \<longrightarrow>
            extractRtAttr buf =
              Inr ((rtattr_of (take 4 buf), drop 4 (take len buf)), drop (RTA_ALIGN len) buf)) \<and>
         len \<le> RTA_ALIGN len \<and> RTA_ALIGN len < len + 4 \<and> 4 dvd RTA_ALIGN len"
proof (intro conjI impI)
  assume "length buf < 4 \<or> len < 4 \<or> length buf < len \<or> length buf < RTA_ALIGN len"
  then show "isl (extractRtAttr buf)"
    by (auto simp: extractRtAttr_def RTA_LENGTH0_def Let_def len)
next
  assume h: "4 \<le> length buf \<and> 4 \<le> len \<and> RTA_ALIGN len \<le> length buf"
  with RTA_ALIGN_bounds [of len] have "len \<le> length buf" by linarith
  with h show "extractRtAttr buf =
      Inr ((rtattr_of (take 4 buf), drop 4 (take len buf)), drop (RTA_ALIGN len) buf)"
    by (simp add: extractRtAttr_def RTA_LENGTH0_def Let_def len [symmetric] drop_take)
qed (use RTA_ALIGN_bounds [of len] in simp_all)

text \<open>A record of declared length 7 (padded to 8) followed by two more bytes; a declared
  length of 3; a declared length of 12 in a buffer of 8 bytes; a declared length of 5 whose
  padding the buffer of 6 bytes does not hold.\<close>

theorem extractRtAttr_contract_witness:
  "((7 :: nat) = unat (rta_len (rtattr_of (take 4 [7, 0, 1, 0, 1, 2, 3, 0, 9, 9]))) \<and>
    4 \<le> length [7 :: byte, 0, 1, 0, 1, 2, 3, 0, 9, 9] \<and> 4 \<le> (7 :: nat) \<and>
    RTA_ALIGN 7 \<le> length [7 :: byte, 0, 1, 0, 1, 2, 3, 0, 9, 9]) \<and>
   extractRtAttr [7, 0, 1, 0, 1, 2, 3, 0, 9, 9]
     = Inr ((\<lparr>rta_len = 7, rta_type = 1\<rparr>, [1, 2, 3]), [9, 9]) \<and>
   ((3 :: nat) = unat (rta_len (rtattr_of (take 4 [3, 0, 1, 0, 1, 2, 3, 4]))) \<and> (3 :: nat) < 4) \<and>
   isl (extractRtAttr [3, 0, 1, 0, 1, 2, 3, 4]) \<and>
   ((12 :: nat) = unat (rta_len (rtattr_of (take 4 [12, 0, 1, 0, 1, 2, 3, 4]))) \<and>
    length [12 :: byte, 0, 1, 0, 1, 2, 3, 4] < 12) \<and>
   isl (extractRtAttr [12, 0, 1, 0, 1, 2, 3, 4]) \<and>
   ((5 :: nat) = unat (rta_len (rtattr_of (take 4 [5, 0, 1, 0, 1, 0]))) \<and>
    length [5 :: byte, 0, 1, 0, 1, 0] < RTA_ALIGN 5) \<and>
   isl (extractRtAttr [5, 0, 1, 0, 1, 0])"
  (is "?H1 \<and> ?C1 \<and> ?H2 \<and> ?C2 \<and> ?H3 \<and> ?C3 \<and> ?H4 \<and> ?C4")
proof -
  have h1: ?H1 by (simp add: wire_defs)
  have h2: ?H2 by (simp add: wire_defs)
  have h3: ?H3 by (simp add: wire_defs)
  have h4: ?H4 by (simp add: wire_defs)
  from h1 extractRtAttr_contract [of 7 "[7, 0, 1, 0, 1, 2, 3, 0, 9, 9]"]
  have "extractRtAttr [7, 0, 1, 0, 1, 2, 3, 0, 9, 9]
     = Inr ((rtattr_of (take 4 [7, 0, 1, 0, 1, 2, 3, 0, 9, 9]),
             drop 4 (take 7 [7, 0, 1, 0, 1, 2, 3, 0, 9, 9])),
            drop (RTA_ALIGN 7) [7, 0, 1, 0, 1, 2, 3, 0, 9, 9])"
    by blast
  then have c1: ?C1 by (simp add: wire_defs)
  from h2 extractRtAttr_contract [of 3 "[3, 0, 1, 0, 1, 2, 3, 4]"] have c2: ?C2 by blast
  from h3 extractRtAttr_contract [of 12 "[12, 0, 1, 0, 1, 2, 3, 4]"] have c3: ?C3 by blast
  from h4 extractRtAttr_contract [of 5 "[5, 0, 1, 0, 1, 0]"] have c4: ?C4 by blast
  from h1 c1 h2 c2 h3 c3 h4 c4 show ?thesis by blast
qed

subsection \<open>Route decoder\<close>

text \<open>
  C1 (as amended).  The claim says that a default route of the main table whose family is
  neither \<open>AF_INET\<close> nor \<open>AF_INET6\<close> is a decode failure.  In \<open>gatewayFromRtm\<close> the \<open>switch\<close> on
  \<open>rtm_family\<close> has no case for such a family and control reaches the final
  \<open>return std::nullopt\<close>: the outcome is "no result", the very outcome of a message that the
  filter rejects, and never a failure, whatever bytes follow the header.
\<close>

theorem unsupported_family_no_result:
  "extractRtData_rtmsg msg = Inr (rtm, rest) \<Longrightarrow>
   rtm_table rtm = RT_TABLE_MAIN \<Longrightarrow> rtm_dst_len rtm = 0 \<Longrightarrow>
   rtm_family rtm \<noteq> AF_INET \<Longrightarrow> rtm_family rtm \<noteq> AF_INET6 \<Longrightarrow>
   gatewayFromRtm msg = Inr None"
  by (simp add: gatewayFromRtm_def)

text \<open>A default route of the main table in family 17 (\<open>AF_PACKET\<close>) carrying \<open>RTA_OIF = 3\<close>.\<close>

theorem unsupported_family_no_result_witness:
  "extractRtData_rtmsg [17, 0, 0, 0, 254, 0, 0, 0, 0, 0, 0, 0, 8, 0, 4, 0, 3, 0, 0, 0]
     = Inr (rtmsg_of [17, 0, 0, 0, 254, 0, 0, 0, 0, 0, 0, 0], [8, 0, 4, 0, 3, 0, 0, 0]) \<and>
   rtm_table (rtmsg_of [17, 0, 0, 0, 254, 0, 0, 0, 0, 0, 0, 0]) = RT_TABLE_MAIN \<and>
   rtm_dst_len (rtmsg_of [17, 0, 0, 0, 254, 0, 0, 0, 0, 0, 0, 0]) = 0 \<and>
   rtm_family (rtmsg_of [17, 0, 0, 0, 254, 0, 0, 0, 0, 0, 0, 0]) \<noteq> AF_INET \<and>
   rtm_family (rtmsg_of [17, 0, 0, 0, 254, 0, 0, 0, 0, 0, 0, 0]) \<noteq> AF_INET6 \<and>
   gatewayFromRtm [17, 0, 0, 0, 254, 0, 0, 0, 0, 0, 0, 0, 8, 0, 4, 0, 3, 0, 0, 0] = Inr None"
  using unsupported_family_no_result
    [of "[17, 0, 0, 0, 254, 0, 0, 0, 0, 0, 0, 0, 8, 0, 4, 0, 3, 0, 0, 0]"
        "rtmsg_of [17, 0, 0, 0, 254, 0, 0, 0, 0, 0, 0, 0]" "[8, 0, 4, 0, 3, 0, 0, 0]"]
  by (simp add: extractRtData_rtmsg_def rtmsg_of_def RT_TABLE_MAIN_def AF_INET_def AF_INET6_def)

text \<open>The claim as stated fails on the header alone, family 0 (\<open>AF_UNSPEC\<close>): the header
  passes the filter, the family is unsupported, and the decoder returns "no result".\<close>

theorem unsupported_family_counterexample:
  "extractRtData_rtmsg [0, 0, 0, 0, 254, 0, 0, 0, 0, 0, 0, 0]
     = Inr (rtmsg_of [0, 0, 0, 0, 254, 0, 0, 0, 0, 0, 0, 0], []) \<and>
   rtm_table (rtmsg_of [0, 0, 0, 0, 254, 0, 0, 0, 0, 0, 0, 0]) = RT_TABLE_MAIN \<and>
   rtm_dst_len (rtmsg_of [0, 0, 0, 0, 254, 0, 0, 0, 0, 0, 0, 0]) = 0 \<and>
   rtm_family (rtmsg_of [0, 0, 0, 0, 254, 0, 0, 0, 0, 0, 0, 0]) \<noteq> AF_INET \<and>
   rtm_family (rtmsg_of [0, 0, 0, 0, 254, 0, 0, 0, 0, 0, 0, 0]) \<noteq> AF_INET6 \<and>
   gatewayFromRtm [0, 0, 0, 0, 254, 0, 0, 0, 0, 0, 0, 0] = Inr None \<and>
   \<not> isl (gatewayFromRtm [0, 0, 0, 0, 254, 0, 0, 0, 0, 0, 0, 0])"
  by (simp add: wire_defs helper_defs decoder_defs)

text \<open>
  C2.  A route message whose header has a destination prefix length other than 0, or a table
  other than \<open>RT_TABLE_MAIN\<close>, gives "no result" and never a failure, for all attribute bytes
  after the 12 bytes of the header.
\<close>

theorem non_default_route_no_result:
  "length hdr = 12 \<Longrightarrow>
   rtm_dst_len (rtmsg_of hdr) \<noteq> 0 \<or> rtm_table (rtmsg_of hdr) \<noteq> RT_TABLE_MAIN \<Longrightarrow>
   gatewayFromRtm (hdr @ attrs) = Inr None"
  by (auto simp: gatewayFromRtm_def extractRtData_rtmsg_append)

text \<open>A route to a /24 in the main table, followed by bytes that are no attribute record.\<close>

theorem non_default_route_no_result_witness:
  "length [2 :: byte, 24, 0, 0, 254, 0, 0, 0, 0, 0, 0, 0] = 12 \<and>
   rtm_dst_len (rtmsg_of [2, 24, 0, 0, 254, 0, 0, 0, 0, 0, 0, 0]) \<noteq> 0 \<and>
   isl (extractRtAttr [1, 0, 255]) \<and>
   gatewayFromRtm ([2, 24, 0, 0, 254, 0, 0, 0, 0, 0, 0, 0] @ [1, 0, 255]) = Inr None"
  using non_default_route_no_result
    [of "[2, 24, 0, 0, 254, 0, 0, 0, 0, 0, 0, 0]" "[1, 0, 255]"]
  by (simp add: rtmsg_of_def extractRtAttr_def RTA_LENGTH0_def)

text \<open>
  C6 (as amended).  The claim says that every default route of the main table with a
  supported family yields a pair exactly when \<open>RTA_OIF\<close> and \<open>RTA_GATEWAY\<close> both occur.  The
  strict copies inside the loop throw on a payload of the wrong width, so a message can carry
  both attributes and yield no pair.  For the messages on which \<open>gatewayFromRtm\<close> does not
  throw the claim holds: the result is a pair exactly when both attributes occur in the
  stream, it is "no result" when either is absent, and every other such message with the
  same header whose \<open>RTA_OIF\<close> records and whose \<open>RTA_GATEWAY\<close> records are the same, however the
  two kinds are interleaved, has the same result.
\<close>

theorem gateway_iff_both_attributes:
  assumes "extractRtData_rtmsg msg = Inr (rtm, rest)"
    and "rtm_table rtm = RT_TABLE_MAIN" and "rtm_dst_len rtm = 0"
    and "rtm_family rtm = AF_INET \<or> rtm_family rtm = AF_INET6"
    and "gatewayFromRtm msg = Inr res"
  shows "\<exists>recs. rtattrs rest = Inr recs \<and>
     ((\<exists>p. res = Some p) \<longleftrightarrow>
        (\<exists>r\<in>set recs. rta_type (fst r) = RTA_OIF) \<and>
        (\<exists>r\<in>set recs. rta_type (fst r) = RTA_GATEWAY)) \<and>
     ((\<forall>r\<in>set recs. rta_type (fst r) \<noteq> RTA_OIF) \<or>
      (\<forall>r\<in>set recs. rta_type (fst r) \<noteq> RTA_GATEWAY) \<longrightarrow> res = None) \<and>
     (\<forall>msg' rest' recs' res'.
        extractRtData_rtmsg msg' = Inr (rtm, rest') \<and> rtattrs rest' = Inr recs' \<and>
        gatewayFromRtm msg' = Inr res' \<and>
        filter (\<lambda>r. rta_type (fst r) = RTA_OIF) recs' =
          filter (\<lambda>r. rta_type (fst r) = RTA_OIF) recs \<and>
        filter (\<lambda>r. rta_type (fst r) = RTA_GATEWAY) recs' =
          filter (\<lambda>r. rta_type (fst r) = RTA_GATEWAY) recs
        \<longrightarrow> res' = res)"
proof -
  let ?A = "if rtm_family rtm = AF_INET then in_addr else in6_addr"
  let ?f = "\<lambda>recs. (case last_of RTA_OIF recs of
        None \<Rightarrow> None
      | Some di \<Rightarrow>
          (case last_of RTA_GATEWAY recs of
             None \<Rightarrow> None
           | Some dg \<Rightarrow> Some (host_word di :: u32, case ?A of in_addr \<Rightarrow> V4 dg | in6_addr \<Rightarrow> V6 dg)))"
  have gw: "gatewayFromRtm msg = parse ?A rest"
    by (rule gatewayFromRtm_parse [OF assms(1-4)])
  with assms(5) obtain st where "rtattr_loop (parse_body ?A) rest (None, None) = Inr st"
    by (auto simp: parse_def split: sum.splits)
  from rtattr_loop_stream [OF this] obtain recs where recs: "rtattrs rest = Inr recs" ..
  from parse_result [OF recs] gw assms(5) have res: "res = ?f recs"
    by simp
  have iff: "(\<exists>p. res = Some p) \<longleftrightarrow>
        (\<exists>r\<in>set recs. rta_type (fst r) = RTA_OIF) \<and>
        (\<exists>r\<in>set recs. rta_type (fst r) = RTA_GATEWAY)"
    unfolding res
    using last_of_Some_iff [of RTA_OIF recs] last_of_Some_iff [of RTA_GATEWAY recs]
    by (auto split: option.splits)
  have absent: "(\<forall>r\<in>set recs. rta_type (fst r) \<noteq> RTA_OIF) \<or>
      (\<forall>r\<in>set recs. rta_type (fst r) \<noteq> RTA_GATEWAY) \<longrightarrow> res = None"
    using iff by (cases res) auto
  have order: "res' = res"
    if h: "extractRtData_rtmsg msg' = Inr (rtm, rest')" "rtattrs rest' = Inr recs'"
        "gatewayFromRtm msg' = Inr res'"
        "filter (\<lambda>r. rta_type (fst r) = RTA_OIF) recs' =
          filter (\<lambda>r. rta_type (fst r) = RTA_OIF) recs"
        "filter (\<lambda>r. rta_type (fst r) = RTA_GATEWAY) recs' =
          filter (\<lambda>r. rta_type (fst r) = RTA_GATEWAY) recs"
    for msg' rest' recs' res'
  proof -
    have "gatewayFromRtm msg' = parse ?A rest'"
      by (rule gatewayFromRtm_parse [OF h(1) assms(2-4)])
    from parse_result [OF h(2)] this h(3) have "res' = ?f recs'"
      by simp
    then show ?thesis
      unfolding res last_of_filter_cong [OF h(4)] last_of_filter_cong [OF h(5)] .
  qed
  have order': "\<forall>msg' rest' recs' res'.
        extractRtData_rtmsg msg' = Inr (rtm, rest') \<and> rtattrs rest' = Inr recs' \<and>
        gatewayFromRtm msg' = Inr res' \<and>
        filter (\<lambda>r. rta_type (fst r) = RTA_OIF) recs' =
          filter (\<lambda>r. rta_type (fst r) = RTA_OIF) recs \<and>
        filter (\<lambda>r. rta_type (fst r) = RTA_GATEWAY) recs' =
          filter (\<lambda>r. rta_type (fst r) = RTA_GATEWAY) recs
        \<longrightarrow> res' = res"
    by (intro allI impI, elim conjE, rule order; assumption)
  show ?thesis
    by (rule exI [of _ recs], intro conjI) (fact recs iff absent order')+
qed

text \<open>The gateway 10.0.0.1 before the interface index 3; the same two records in the other
  order give the same pair.\<close>

theorem gateway_iff_both_attributes_witness:
  "(extractRtData_rtmsg
      ([2, 0, 0, 0, 254, 0, 0, 0, 0, 0, 0, 0] @
       [8, 0, 5, 0, 10, 0, 0, 1, 8, 0, 4, 0, 3, 0, 0, 0])
      = Inr (rtmsg_of [2, 0, 0, 0, 254, 0, 0, 0, 0, 0, 0, 0],
             [8, 0, 5, 0, 10, 0, 0, 1, 8, 0, 4, 0, 3, 0, 0, 0]) \<and>
    rtm_table (rtmsg_of [2, 0, 0, 0, 254, 0, 0, 0, 0, 0, 0, 0]) = RT_TABLE_MAIN \<and>
    rtm_dst_len (rtmsg_of [2, 0, 0, 0, 254, 0, 0, 0, 0, 0, 0, 0]) = 0 \<and>
    (rtm_family (rtmsg_of [2, 0, 0, 0, 254, 0, 0, 0, 0, 0, 0, 0]) = AF_INET \<or>
     rtm_family (rtmsg_of [2, 0, 0, 0, 254, 0, 0, 0, 0, 0, 0, 0]) = AF_INET6) \<and>
    gatewayFromRtm
      ([2, 0, 0, 0, 254, 0, 0, 0, 0, 0, 0, 0] @
       [8, 0, 5, 0, 10, 0, 0, 1, 8, 0, 4, 0, 3, 0, 0, 0])
      = Inr (Some (3, V4 [10, 0, 0, 1]))) \<and>
   rtattrs [8, 0, 5, 0, 10, 0, 0, 1, 8, 0, 4, 0, 3, 0, 0, 0]
     = Inr [(\<lparr>rta_len = 8, rta_type = 5\<rparr>, [10, 0, 0, 1]),
            (\<lparr>rta_len = 8, rta_type = 4\<rparr>, [3, 0, 0, 0])] \<and>
   ((\<exists>p. Some (3 :: u32, V4 [10, 0, 0, 1]) = Some p) \<longleftrightarrow>
      (\<exists>r\<in>set [(\<lparr>rta_len = 8, rta_type = 5\<rparr>, [10 :: byte, 0, 0, 1]),
                 (\<lparr>rta_len = 8, rta_type = 4\<rparr>, [3, 0, 0, 0])]. rta_type (fst r) = RTA_OIF) \<and>
      (\<exists>r\<in>set [(\<lparr>rta_len = 8, rta_type = 5\<rparr>, [10 :: byte, 0, 0, 1]),
                 (\<lparr>rta_len = 8, rta_type = 4\<rparr>, [3, 0, 0, 0])]. rta_type (fst r) = RTA_GATEWAY)) \<and>
   gatewayFromRtm
     ([2, 0, 0, 0, 254, 0, 0, 0, 0, 0, 0, 0] @
      [8, 0, 4, 0, 3, 0, 0, 0, 8, 0, 5, 0, 10, 0, 0, 1])
     = gatewayFromRtm
         ([2, 0, 0, 0, 254, 0, 0, 0, 0, 0, 0, 0] @
          [8, 0, 5, 0, 10, 0, 0, 1, 8, 0, 4, 0, 3, 0, 0, 0])"
  (is "?H \<and> ?S \<and> ?I \<and> ?O")
proof -
  let ?hdr = "[2, 0, 0, 0, 254, 0, 0, 0, 0, 0, 0, 0] :: bytes"
  let ?gw_first = "[8, 0, 5, 0, 10, 0, 0, 1, 8, 0, 4, 0, 3, 0, 0, 0] :: bytes"
  let ?oif_first = "[8, 0, 4, 0, 3, 0, 0, 0, 8, 0, 5, 0, 10, 0, 0, 1] :: bytes"
  let ?recs = "[(\<lparr>rta_len = 8, rta_type = 5\<rparr>, [10 :: byte, 0, 0, 1]),
            (\<lparr>rta_len = 8, rta_type = 4\<rparr>, [3, 0, 0, 0])]"
  have h: ?H by (simp add: run_defs)
  have s: ?S by (simp add: run_defs)
  have ex2: "extractRtData_rtmsg (?hdr @ ?oif_first) = Inr (rtmsg_of ?hdr, ?oif_first)"
    by (simp add: extractRtData_rtmsg_def)
  have s2: "rtattrs ?oif_first =
      Inr [(\<lparr>rta_len = 8, rta_type = 4\<rparr>, [3, 0, 0, 0]),
           (\<lparr>rta_len = 8, rta_type = 5\<rparr>, [10, 0, 0, 1])]"
    by (simp add: run_defs)
  from h gateway_iff_both_attributes
    [of "?hdr @ ?gw_first" "rtmsg_of ?hdr" ?gw_first "Some (3, V4 [10, 0, 0, 1])"]
  obtain recs where recs: "rtattrs ?gw_first = Inr recs"
    and iff: "(\<exists>p. Some (3 :: u32, V4 [10, 0, 0, 1]) = Some p) \<longleftrightarrow>
        (\<exists>r\<in>set recs. rta_type (fst r) = RTA_OIF) \<and>
        (\<exists>r\<in>set recs. rta_type (fst r) = RTA_GATEWAY)"
    and order: "\<forall>msg' rest' recs' res'.
        extractRtData_rtmsg msg' = Inr (rtmsg_of ?hdr, rest') \<and> rtattrs rest' = Inr recs' \<and>
        gatewayFromRtm msg' = Inr res' \<and>
        filter (\<lambda>r. rta_type (fst r) = RTA_OIF) recs' =
          filter (\<lambda>r. rta_type (fst r) = RTA_OIF) recs \<and>
        filter (\<lambda>r. rta_type (fst r) = RTA_GATEWAY) recs' =
          filter (\<lambda>r. rta_type (fst r) = RTA_GATEWAY) recs
        \<longrightarrow> res' = Some (3, V4 [10, 0, 0, 1])"
    by blast
  from recs s have eq: "recs = ?recs" by simp
  from iff have i: ?I unfolding eq .
  have "\<not> isl (gatewayFromRtm (?hdr @ ?oif_first))"
    by (simp add: run_defs)
  then obtain res' where r2: "gatewayFromRtm (?hdr @ ?oif_first) = Inr res'"
    by (cases "gatewayFromRtm (?hdr @ ?oif_first)") simp_all
  with order [rule_format, of "?hdr @ ?oif_first" ?oif_first _ res'] ex2 s2
  have "res' = Some (3, V4 [10, 0, 0, 1])"
    unfolding eq by (simp add: RTA_OIF_def RTA_GATEWAY_def)
  with r2 h have o: ?O by simp
  from h s i o show ?thesis by blast
qed

text \<open>The claim as stated fails on an \<open>AF_INET\<close> default route that carries \<open>RTA_OIF\<close> and an
  \<open>RTA_GATEWAY\<close> of 16 bytes: both attributes occur and the decoder throws.\<close>

theorem gateway_both_present_counterexample:
  "extractRtData_rtmsg
     ([2, 0, 0, 0, 254, 0, 0, 0, 0, 0, 0, 0] @
      [8, 0, 4, 0, 3, 0, 0, 0,
       20, 0, 5, 0, 254, 128, 0, 0, 0, 0, 0, 0, 0, 0, 0, 0, 0, 0, 0, 1])
     = Inr (rtmsg_of [2, 0, 0, 0, 254, 0, 0, 0, 0, 0, 0, 0],
            [8, 0, 4, 0, 3, 0, 0, 0,
             20, 0, 5, 0, 254, 128, 0, 0, 0, 0, 0, 0, 0, 0, 0, 0, 0, 0, 0, 1]) \<and>
   rtm_table (rtmsg_of [2, 0, 0, 0, 254, 0, 0, 0, 0, 0, 0, 0]) = RT_TABLE_MAIN \<and>
   rtm_dst_len (rtmsg_of [2, 0, 0, 0, 254, 0, 0, 0, 0, 0, 0, 0]) = 0 \<and>
   rtm_family (rtmsg_of [2, 0, 0, 0, 254, 0, 0, 0, 0, 0, 0, 0]) = AF_INET \<and>
   rtattrs [8, 0, 4, 0, 3, 0, 0, 0,
            20, 0, 5, 0, 254, 128, 0, 0, 0, 0, 0, 0, 0, 0, 0, 0, 0, 0, 0, 1]
     = Inr [(\<lparr>rta_len = 8, rta_type = RTA_OIF\<rparr>, [3, 0, 0, 0]),
            (\<lparr>rta_len = 20, rta_type = RTA_GATEWAY\<rparr>,
              [254, 128, 0, 0, 0, 0, 0, 0, 0, 0, 0, 0, 0, 0, 0, 1])] \<and>
   gatewayFromRtm
     ([2, 0, 0, 0, 254, 0, 0, 0, 0, 0, 0, 0] @
      [8, 0, 4, 0, 3, 0, 0, 0,
       20, 0, 5, 0, 254, 128, 0, 0, 0, 0, 0, 0, 0, 0, 0, 0, 0, 0, 0, 1])
     = Inl SizeMismatch"
  by (simp add: run_defs)

subsection \<open>Address decoder\<close>

text \<open>
  C4.  An address message whose attribute stream holds no \<open>IFA_ADDRESS\<close> record is a decode
  failure, never a partial result; when the scan itself completes (every \<open>IFA_FLAGS\<close> payload
  has 4 bytes) the failure is the "Missing address" error thrown after the loop.
\<close>

theorem missing_address_fails:
  assumes "extractRtData_ifaddrmsg msg = Inr (ifa, rest)" and "rtattrs rest = Inr recs"
    and "\<forall>r\<in>set recs. rta_type (fst r) \<noteq> IFA_ADDRESS"
  shows "isl (addrFromRtm msg) \<and>
    ((\<forall>r\<in>set recs. rta_type (fst r) = IFA_FLAGS \<longrightarrow> length (snd r) = 4) \<longrightarrow>
       addrFromRtm msg = Inl MissingAddress)"
proof
  note unf = addrFromRtm_unfold [OF assms(1,2)]
  from assms(3) have none: "last_of IFA_ADDRESS recs = None"
    by (simp add: last_of_None_iff)
  show "isl (addrFromRtm msg)"
  proof (cases "run_body (addr_body ifa) recs
        (\<lparr>ifidx = ifa_index ifa, ifaddr = \<lparr>addr = V4 [0, 0, 0, 0], pfx = 0\<rparr>,
          scope = ifa_scope ifa, flags = ucast (ifa_flags ifa)\<rparr>, None)")
    case (Inl e)
    with unf show ?thesis by simp
  next
    case (Inr st)
    obtain ret' a' where st: "st = (ret', a')" by (cases st)
    from run_addr_body [OF Inr [unfolded st]] none have "a' = None" by simp
    with unf Inr st show ?thesis by simp
  qed
  show "(\<forall>r\<in>set recs. rta_type (fst r) = IFA_FLAGS \<longrightarrow> length (snd r) = 4) \<longrightarrow>
       addrFromRtm msg = Inl MissingAddress"
  proof
    assume "\<forall>r\<in>set recs. rta_type (fst r) = IFA_FLAGS \<longrightarrow> length (snd r) = 4"
    from run_addr_body_flags_only [OF assms(3) this] unf
    show "addrFromRtm msg = Inl MissingAddress"
      by (metis (no_types, lifting) old.sum.simps(6) option.simps(4) case_prod_conv)
  qed
qed

text \<open>A message with \<open>IFA_FLAGS\<close> only, and a message with no attributes at all.\<close>

theorem missing_address_fails_witness:
  "(extractRtData_ifaddrmsg ([2, 24, 0, 0, 5, 0, 0, 0] @ [8, 0, 8, 0, 128, 0, 0, 0])
      = Inr (ifaddrmsg_of [2, 24, 0, 0, 5, 0, 0, 0], [8, 0, 8, 0, 128, 0, 0, 0]) \<and>
    rtattrs [8, 0, 8, 0, 128, 0, 0, 0] = Inr [(\<lparr>rta_len = 8, rta_type = 8\<rparr>, [128, 0, 0, 0])] \<and>
    list_all (\<lambda>r. rta_type (fst r) \<noteq> IFA_ADDRESS)
      [(\<lparr>rta_len = 8, rta_type = 8\<rparr>, [128 :: byte, 0, 0, 0])] \<and>
    list_all (\<lambda>r. rta_type (fst r) = IFA_FLAGS \<longrightarrow> length (snd r) = 4)
      [(\<lparr>rta_len = 8, rta_type = 8\<rparr>, [128 :: byte, 0, 0, 0])]) \<and>
   addrFromRtm ([2, 24, 0, 0, 5, 0, 0, 0] @ [8, 0, 8, 0, 128, 0, 0, 0]) = Inl MissingAddress \<and>
   (extractRtData_ifaddrmsg ([2, 24, 0, 0, 5, 0, 0, 0] @ [])
      = Inr (ifaddrmsg_of [2, 24, 0, 0, 5, 0, 0, 0], []) \<and>
    rtattrs [] = Inr []) \<and>
   addrFromRtm ([2, 24, 0, 0, 5, 0, 0, 0] @ []) = Inl MissingAddress"
  (is "?H1 \<and> ?C1 \<and> ?H2 \<and> ?C2")
proof -
  have h1: ?H1 by (simp add: run_defs)
  have h2: ?H2 by (simp add: run_defs)
  from h1 missing_address_fails
    [of "[2, 24, 0, 0, 5, 0, 0, 0] @ [8, 0, 8, 0, 128, 0, 0, 0]"
        "ifaddrmsg_of [2, 24, 0, 0, 5, 0, 0, 0]" "[8, 0, 8, 0, 128, 0, 0, 0]"
        "[(\<lparr>rta_len = 8, rta_type = 8\<rparr>, [128, 0, 0, 0])]"]
  have c1: ?C1 by (simp add: list_all_iff)
  from h2 missing_address_fails
    [of "[2, 24, 0, 0, 5, 0, 0, 0] @ []" "ifaddrmsg_of [2, 24, 0, 0, 5, 0, 0, 0]" "[]" "[]"]
  have c2: ?C2 by simp
  from h1 c1 h2 c2 show ?thesis by blast
qed

text \<open>
  C5.  In a successfully decoded address message the flags are the value of the (last)
  \<open>IFA_FLAGS\<close> attribute when there is one, and the zero-extended 8-bit flags of the header
  when there is none.
\<close>

theorem flags_attribute_overrides_header:
  assumes "extractRtData_ifaddrmsg msg = Inr (ifa, rest)" and "rtattrs rest = Inr recs"
    and "addrFromRtm msg = Inr ai"
  shows "flags ai =
     (case last_of IFA_FLAGS recs of
        None \<Rightarrow> ucast (ifa_flags ifa)
      | Some d \<Rightarrow> host_word d)"
proof -
  from assms obtain ret' a where
    run: "run_body (addr_body ifa) recs
       (\<lparr>ifidx = ifa_index ifa, ifaddr = \<lparr>addr = V4 [0, 0, 0, 0], pfx = 0\<rparr>,
         scope = ifa_scope ifa, flags = ucast (ifa_flags ifa)\<rparr>, None) = Inr (ret', Some a)"
    and ai: "ai = ret'\<lparr>ifaddr := \<lparr>addr = a, pfx = ifa_prefixlen ifa\<rparr>\<rparr>"
    using addrFromRtm_run by blast
  from run_addr_body [OF run] ai show ?thesis
    by (auto split: option.splits)
qed

text \<open>Header flags 1 and \<open>IFA_FLAGS = 0x280\<close> give 0x280; header flags 0x80 and no
  \<open>IFA_FLAGS\<close> give 0x80.\<close>

theorem flags_attribute_overrides_header_witness:
  "(extractRtData_ifaddrmsg
      ([10, 64, 1, 0, 2, 0, 0, 0] @
       [20, 0, 1, 0, 254, 128, 0, 0, 0, 0, 0, 0, 0, 0, 0, 0, 0, 0, 0, 1, 8, 0, 8, 0, 128, 2, 0, 0])
      = Inr (ifaddrmsg_of [10, 64, 1, 0, 2, 0, 0, 0],
             [20, 0, 1, 0, 254, 128, 0, 0, 0, 0, 0, 0, 0, 0, 0, 0, 0, 0, 0, 1,
              8, 0, 8, 0, 128, 2, 0, 0]) \<and>
    rtattrs [20, 0, 1, 0, 254, 128, 0, 0, 0, 0, 0, 0, 0, 0, 0, 0, 0, 0, 0, 1,
             8, 0, 8, 0, 128, 2, 0, 0]
      = Inr [(\<lparr>rta_len = 20, rta_type = 1\<rparr>,
               [254, 128, 0, 0, 0, 0, 0, 0, 0, 0, 0, 0, 0, 0, 0, 1]),
             (\<lparr>rta_len = 8, rta_type = 8\<rparr>, [128, 2, 0, 0])] \<and>
    addrFromRtm
      ([10, 64, 1, 0, 2, 0, 0, 0] @
       [20, 0, 1, 0, 254, 128, 0, 0, 0, 0, 0, 0, 0, 0, 0, 0, 0, 0, 0, 1, 8, 0, 8, 0, 128, 2, 0, 0])
      = Inr \<lparr>ifidx = 2,
              ifaddr = \<lparr>addr = V6 [254, 128, 0, 0, 0, 0, 0, 0, 0, 0, 0, 0, 0, 0, 0, 1], pfx = 64\<rparr>,
              scope = 0, flags = 640\<rparr>) \<and>
   ifa_flags (ifaddrmsg_of [10, 64, 1, 0, 2, 0, 0, 0]) = 1 \<and>
   (640 :: u32) =
     (case last_of IFA_FLAGS
             [(\<lparr>rta_len = 20, rta_type = 1\<rparr>,
                [254, 128, 0, 0, 0, 0, 0, 0, 0, 0, 0, 0, 0, 0, 0, 1]),
              (\<lparr>rta_len = 8, rta_type = 8\<rparr>, [128, 2, 0, 0])] of
        None \<Rightarrow> ucast (ifa_flags (ifaddrmsg_of [10, 64, 1, 0, 2, 0, 0, 0]))
      | Some d \<Rightarrow> host_word d) \<and>
   (extractRtData_ifaddrmsg ([2, 24, 128, 0, 2, 0, 0, 0] @ [8, 0, 1, 0, 192, 168, 0, 1])
      = Inr (ifaddrmsg_of [2, 24, 128, 0, 2, 0, 0, 0], [8, 0, 1, 0, 192, 168, 0, 1]) \<and>
    rtattrs [8, 0, 1, 0, 192, 168, 0, 1]
      = Inr [(\<lparr>rta_len = 8, rta_type = 1\<rparr>, [192, 168, 0, 1])] \<and>
    addrFromRtm ([2, 24, 128, 0, 2, 0, 0, 0] @ [8, 0, 1, 0, 192, 168, 0, 1])
      = Inr \<lparr>ifidx = 2, ifaddr = \<lparr>addr = V4 [192, 168, 0, 1], pfx = 24\<rparr>,
              scope = 0, flags = 128\<rparr>) \<and>
   (128 :: u32) =
     (case last_of IFA_FLAGS [(\<lparr>rta_len = 8, rta_type = 1\<rparr>, [192, 168, 0, 1])] of
        None \<Rightarrow> ucast (ifa_flags (ifaddrmsg_of [2, 24, 128, 0, 2, 0, 0, 0]))
      | Some d \<Rightarrow> host_word d)"
  (is "?H1 \<and> ?F1 \<and> ?C1 \<and> ?H2 \<and> ?C2")
proof -
  have h1: ?H1 by (simp add: run_defs)
  have f1: ?F1 by (simp add: ifaddrmsg_of_def)
  have h2: ?H2 by (simp add: run_defs)
  from h1 flags_attribute_overrides_header
    [of "[10, 64, 1, 0, 2, 0, 0, 0] @
       [20, 0, 1, 0, 254, 128, 0, 0, 0, 0, 0, 0, 0, 0, 0, 0, 0, 0, 0, 1, 8, 0, 8, 0, 128, 2, 0, 0]"
     "ifaddrmsg_of [10, 64, 1, 0, 2, 0, 0, 0]"
     "[20, 0, 1, 0, 254, 128, 0, 0, 0, 0, 0, 0, 0, 0, 0, 0, 0, 0, 0, 1, 8, 0, 8, 0, 128, 2, 0, 0]"
     "[(\<lparr>rta_len = 20, rta_type = 1\<rparr>,
               [254, 128, 0, 0, 0, 0, 0, 0, 0, 0, 0, 0, 0, 0, 0, 1]),
             (\<lparr>rta_len = 8, rta_type = 8\<rparr>, [128, 2, 0, 0])]"
     "\<lparr>ifidx = 2,
              ifaddr = \<lparr>addr = V6 [254, 128, 0, 0, 0, 0, 0, 0, 0, 0, 0, 0, 0, 0, 0, 1], pfx = 64\<rparr>,
              scope = 0, flags = 640\<rparr>"]
  have c1: ?C1 by simp
  from h2 flags_attribute_overrides_header
    [of "[2, 24, 128, 0, 2, 0, 0, 0] @ [8, 0, 1, 0, 192, 168, 0, 1]"
     "ifaddrmsg_of [2, 24, 128, 0, 2, 0, 0, 0]" "[8, 0, 1, 0, 192, 168, 0, 1]"
     "[(\<lparr>rta_len = 8, rta_type = 1\<rparr>, [192, 168, 0, 1])]"
     "\<lparr>ifidx = 2, ifaddr = \<lparr>addr = V4 [192, 168, 0, 1], pfx = 24\<rparr>,
              scope = 0, flags = 128\<rparr>"]
  have c2: ?C2 by simp
  from h1 f1 c1 h2 c2 show ?thesis by blast
qed

text \<open>
  C10.  In a successfully decoded address message the interface index, the scope and the
  prefix length are those of the 8-byte header, for all attribute bytes that follow it.
\<close>

theorem address_header_fields_frame:
  assumes "length hdr = 8" and "addrFromRtm (hdr @ attrs) = Inr ai"
  shows "ifidx ai = ifa_index (ifaddrmsg_of hdr) \<and>
         scope ai = ifa_scope (ifaddrmsg_of hdr) \<and>
         pfx (ifaddr ai) = ifa_prefixlen (ifaddrmsg_of hdr)"
proof -
  note ex = extractRtData_ifaddrmsg_append [OF assms(1), of attrs]
  from assms(2) ex obtain st where
    "rtattr_loop (addr_body (ifaddrmsg_of hdr)) attrs
        (\<lparr>ifidx = ifa_index (ifaddrmsg_of hdr), ifaddr = \<lparr>addr = V4 [0, 0, 0, 0], pfx = 0\<rparr>,
          scope = ifa_scope (ifaddrmsg_of hdr), flags = ucast (ifa_flags (ifaddrmsg_of hdr))\<rparr>, None)
      = Inr st"
    by (auto simp: addrFromRtm_def Let_def split: sum.splits)
  from rtattr_loop_stream [OF this] obtain recs where recs: "rtattrs attrs = Inr recs" ..
  from addrFromRtm_run [OF ex recs assms(2)] obtain ret' a where
    run: "run_body (addr_body (ifaddrmsg_of hdr)) recs
       (\<lparr>ifidx = ifa_index (ifaddrmsg_of hdr), ifaddr = \<lparr>addr = V4 [0, 0, 0, 0], pfx = 0\<rparr>,
         scope = ifa_scope (ifaddrmsg_of hdr), flags = ucast (ifa_flags (ifaddrmsg_of hdr))\<rparr>, None)
       = Inr (ret', Some a)"
    and ai: "ai = ret'\<lparr>ifaddr := \<lparr>addr = a, pfx = ifa_prefixlen (ifaddrmsg_of hdr)\<rparr>\<rparr>"
    by blast
  from run_addr_body [OF run] ai show ?thesis by simp
qed

text \<open>A message with \<open>IFA_FLAGS\<close>, an unknown attribute and \<open>IFA_ADDRESS\<close>.\<close>

theorem address_header_fields_frame_witness:
  "length [2 :: byte, 24, 1, 253, 5, 0, 0, 0] = 8 \<and>
   addrFromRtm
     ([2, 24, 1, 253, 5, 0, 0, 0] @
      [8, 0, 8, 0, 255, 255, 255, 255, 8, 0, 99, 0, 9, 9, 9, 9, 8, 0, 1, 0, 192, 168, 0, 1])
     = Inr \<lparr>ifidx = 5, ifaddr = \<lparr>addr = V4 [192, 168, 0, 1], pfx = 24\<rparr>,
             scope = 253, flags = 4294967295\<rparr> \<and>
   ifidx \<lparr>ifidx = 5, ifaddr = \<lparr>addr = V4 [192, 168, 0, 1], pfx = 24\<rparr>,
           scope = 253, flags = 4294967295\<rparr>
     = ifa_index (ifaddrmsg_of [2, 24, 1, 253, 5, 0, 0, 0]) \<and>
   scope \<lparr>ifidx = 5, ifaddr = \<lparr>addr = V4 [192, 168, 0, 1], pfx = 24\<rparr>,
           scope = 253, flags = 4294967295\<rparr>
     = ifa_scope (ifaddrmsg_of [2, 24, 1, 253, 5, 0, 0, 0]) \<and>
   pfx (ifaddr \<lparr>ifidx = 5, ifaddr = \<lparr>addr = V4 [192, 168, 0, 1], pfx = 24\<rparr>,
           scope = 253, flags = 4294967295\<rparr>)
     = ifa_prefixlen (ifaddrmsg_of [2, 24, 1, 253, 5, 0, 0, 0])"
  (is "?L \<and> ?H \<and> ?C")
proof -
  have l: ?L by simp
  have h: ?H by (simp add: run_defs)
  from address_header_fields_frame [OF l h] have c: ?C .
  from l h c show ?thesis by blast
qed

subsection \<open>Neighbor decoder\<close>

text \<open>
  C9.  When every \<open>NDA_LLADDR\<close> payload of a neighbor message has at least 6 bytes (and every
  \<open>NDA_DST\<close> payload decodes), the message decodes and the MAC is the first 6 bytes of the
  last \<open>NDA_LLADDR\<close> payload, or absent when there is none; an \<open>NDA_LLADDR\<close> payload shorter
  than 6 bytes makes the decode fail; a message that is the 12-byte header alone decodes with
  neither MAC nor address.
\<close>

theorem neighbor_lladdr_lenient:
  "(extractRtData_ndmsg msg = Inr (ndm, rest) \<and> rtattrs rest = Inr recs \<and>
    (\<forall>r\<in>set recs. (rta_type (fst r) = NDA_LLADDR \<longrightarrow> 6 \<le> length (snd r)) \<and>
                   (rta_type (fst r) = NDA_DST \<longrightarrow>
                      \<not> isl (addrFromBuf (ndm_family ndm) (snd r)))) \<longrightarrow>
      (\<exists>ni. neighFromRtm msg = Inr ni \<and>
            n_mac ni = map_option (take 6) (last_of NDA_LLADDR recs))) \<and>
   (extractRtData_ndmsg msg = Inr (ndm, rest) \<and> rtattrs rest = Inr recs \<and>
    (\<exists>r\<in>set recs. rta_type (fst r) = NDA_LLADDR \<and> length (snd r) < 6) \<longrightarrow>
      isl (neighFromRtm msg)) \<and>
   (length hdr = 12 \<longrightarrow>
      neighFromRtm hdr =
        Inr \<lparr>n_ifidx = ndm_ifindex (ndmsg_of hdr), n_state = ndm_state (ndmsg_of hdr),
             n_addr = None, n_mac = None\<rparr>)"
proof (intro conjI impI)
  assume h: "extractRtData_ndmsg msg = Inr (ndm, rest) \<and> rtattrs rest = Inr recs \<and>
    (\<forall>r\<in>set recs. (rta_type (fst r) = NDA_LLADDR \<longrightarrow> 6 \<le> length (snd r)) \<and>
                   (rta_type (fst r) = NDA_DST \<longrightarrow>
                      \<not> isl (addrFromBuf (ndm_family ndm) (snd r))))"
  then have unf: "neighFromRtm msg =
     run_body (neigh_body ndm) recs
       \<lparr>n_ifidx = ndm_ifindex ndm, n_state = ndm_state ndm, n_addr = None, n_mac = None\<rparr>"
    by (simp add: neighFromRtm_run)
  from h obtain ni where run: "run_body (neigh_body ndm) recs
       \<lparr>n_ifidx = ndm_ifindex ndm, n_state = ndm_state ndm, n_addr = None, n_mac = None\<rparr> = Inr ni"
    using run_neigh_body_ok by blast
  from run_neigh_body [OF run]
  have "n_mac ni = map_option (take 6) (last_of NDA_LLADDR recs)"
    by (auto split: option.splits)
  with unf run
  show "\<exists>ni. neighFromRtm msg = Inr ni \<and>
            n_mac ni = map_option (take 6) (last_of NDA_LLADDR recs)"
    by simp
next
  assume h: "extractRtData_ndmsg msg = Inr (ndm, rest) \<and> rtattrs rest = Inr recs \<and>
    (\<exists>r\<in>set recs. rta_type (fst r) = NDA_LLADDR \<and> length (snd r) < 6)"
  then show "isl (neighFromRtm msg)"
    by (simp add: neighFromRtm_run run_neigh_body_short)
next
  assume "length hdr = 12"
  then show "neighFromRtm hdr =
        Inr \<lparr>n_ifidx = ndm_ifindex (ndmsg_of hdr), n_state = ndm_state (ndmsg_of hdr),
             n_addr = None, n_mac = None\<rparr>"
    by (simp add: neighFromRtm_def extractRtData_ndmsg_def)
qed

text \<open>An \<open>NDA_LLADDR\<close> of 8 bytes, an \<open>NDA_LLADDR\<close> of 5 bytes, and the header alone.\<close>

theorem neighbor_lladdr_lenient_witness:
  "(extractRtData_ndmsg
      ([2, 0, 0, 0, 3, 0, 0, 0, 2, 0, 0, 0] @ [12, 0, 2, 0, 1, 2, 3, 4, 5, 6, 7, 8])
      = Inr (ndmsg_of [2, 0, 0, 0, 3, 0, 0, 0, 2, 0, 0, 0],
             [12, 0, 2, 0, 1, 2, 3, 4, 5, 6, 7, 8]) \<and>
    rtattrs [12, 0, 2, 0, 1, 2, 3, 4, 5, 6, 7, 8]
      = Inr [(\<lparr>rta_len = 12, rta_type = 2\<rparr>, [1, 2, 3, 4, 5, 6, 7, 8])] \<and>
    list_all
      (\<lambda>r. (rta_type (fst r) = NDA_LLADDR \<longrightarrow> 6 \<le> length (snd r)) \<and>
           (rta_type (fst r) = NDA_DST \<longrightarrow>
              \<not> isl (addrFromBuf (ndm_family (ndmsg_of [2, 0, 0, 0, 3, 0, 0, 0, 2, 0, 0, 0]))
                        (snd r))))
      [(\<lparr>rta_len = 12, rta_type = 2\<rparr>, [1 :: byte, 2, 3, 4, 5, 6, 7, 8])]) \<and>
   neighFromRtm ([2, 0, 0, 0, 3, 0, 0, 0, 2, 0, 0, 0] @ [12, 0, 2, 0, 1, 2, 3, 4, 5, 6, 7, 8])
     = Inr \<lparr>n_ifidx = 3, n_state = 2, n_addr = None, n_mac = Some [1, 2, 3, 4, 5, 6]\<rparr> \<and>
   (extractRtData_ndmsg
      ([2, 0, 0, 0, 3, 0, 0, 0, 2, 0, 0, 0] @ [9, 0, 2, 0, 1, 2, 3, 4, 5, 0, 0, 0])
      = Inr (ndmsg_of [2, 0, 0, 0, 3, 0, 0, 0, 2, 0, 0, 0],
             [9, 0, 2, 0, 1, 2, 3, 4, 5, 0, 0, 0]) \<and>
    rtattrs [9, 0, 2, 0, 1, 2, 3, 4, 5, 0, 0, 0]
      = Inr [(\<lparr>rta_len = 9, rta_type = 2\<rparr>, [1, 2, 3, 4, 5])] \<and>
    (\<exists>r\<in>set [(\<lparr>rta_len = 9, rta_type = 2\<rparr>, [1 :: byte, 2, 3, 4, 5])].
        rta_type (fst r) = NDA_LLADDR \<and> length (snd r) < 6)) \<and>
   isl (neighFromRtm
          ([2, 0, 0, 0, 3, 0, 0, 0, 2, 0, 0, 0] @ [9, 0, 2, 0, 1, 2, 3, 4, 5, 0, 0, 0])) \<and>
   length [2 :: byte, 0, 0, 0, 3, 0, 0, 0, 2, 0, 0, 0] = 12 \<and>
   neighFromRtm [2, 0, 0, 0, 3, 0, 0, 0, 2, 0, 0, 0]
     = Inr \<lparr>n_ifidx = 3, n_state = 2, n_addr = None, n_mac = None\<rparr>"
  (is "?H1 \<and> ?C1 \<and> ?H2 \<and> ?C2 \<and> ?H3 \<and> ?C3")
proof -
  have h1: ?H1 by (simp add: run_defs)
  have h2: ?H2 by (simp add: run_defs)
  have h3: ?H3 by simp
  note inst = neighbor_lladdr_lenient
    [where hdr = "[2, 0, 0, 0, 3, 0, 0, 0, 2, 0, 0, 0]"
       and ndm = "ndmsg_of [2, 0, 0, 0, 3, 0, 0, 0, 2, 0, 0, 0]"]
  from h1 inst
    [where msg = "[2, 0, 0, 0, 3, 0, 0, 0, 2, 0, 0, 0] @ [12, 0, 2, 0, 1, 2, 3, 4, 5, 6, 7, 8]"
       and rest = "[12, 0, 2, 0, 1, 2, 3, 4, 5, 6, 7, 8]"
       and recs = "[(\<lparr>rta_len = 12, rta_type = 2\<rparr>, [1, 2, 3, 4, 5, 6, 7, 8])]"]
  obtain ni where
    "neighFromRtm ([2, 0, 0, 0, 3, 0, 0, 0, 2, 0, 0, 0] @ [12, 0, 2, 0, 1, 2, 3, 4, 5, 6, 7, 8])
       = Inr ni"
    unfolding list_all_iff by blast
  moreover have "neighFromRtm
      ([2, 0, 0, 0, 3, 0, 0, 0, 2, 0, 0, 0] @ [12, 0, 2, 0, 1, 2, 3, 4, 5, 6, 7, 8])
     = Inr \<lparr>n_ifidx = 3, n_state = 2, n_addr = None, n_mac = Some [1, 2, 3, 4, 5, 6]\<rparr>"
    by (simp add: run_defs)
  ultimately have c1: ?C1 by simp
  from h2 inst
    [where msg = "[2, 0, 0, 0, 3, 0, 0, 0, 2, 0, 0, 0] @ [9, 0, 2, 0, 1, 2, 3, 4, 5, 0, 0, 0]"
       and rest = "[9, 0, 2, 0, 1, 2, 3, 4, 5, 0, 0, 0]"
       and recs = "[(\<lparr>rta_len = 9, rta_type = 2\<rparr>, [1, 2, 3, 4, 5])]"]
  have c2: ?C2 by blast
  from h3 inst have "neighFromRtm [2, 0, 0, 0, 3, 0, 0, 0, 2, 0, 0, 0]
     = Inr \<lparr>n_ifidx = ndm_ifindex (ndmsg_of [2, 0, 0, 0, 3, 0, 0, 0, 2, 0, 0, 0]),
             n_state = ndm_state (ndmsg_of [2, 0, 0, 0, 3, 0, 0, 0, 2, 0, 0, 0]),
             n_addr = None, n_mac = None\<rparr>"
    by blast
  then have c3: ?C3 by (simp add: wire_defs)
  from h1 c1 h2 c2 h3 c3 show ?thesis by blast
qed

subsection \<open>All decoders\<close>

text \<open>
  C3.  Repeated attributes are overwritten, not rejected.  For each decoder, a message with a
  well-formed stream in which every recognized record has a payload its copy accepts decodes
  successfully, however often a type occurs, and the result holds the value of the last
  occurrence of each recognized type: \<open>RTA_OIF\<close> and \<open>RTA_GATEWAY\<close> for the route decoder,
  \<open>IFA_ADDRESS\<close> and \<open>IFA_FLAGS\<close> for the address decoder, \<open>NDA_LLADDR\<close> and \<open>NDA_DST\<close> for the
  neighbor decoder (first three parts).  Conversely, whenever a decoder returns a result, the
  values in it are those of the last occurrences (last three parts).
\<close>

theorem last_occurrence_wins:
  "(extractRtData_rtmsg msg = Inr (rtm, rest) \<and>
    rtm_table rtm = RT_TABLE_MAIN \<and> rtm_dst_len rtm = 0 \<and>
    (rtm_family rtm = AF_INET \<or> rtm_family rtm = AF_INET6) \<and>
    rtattrs rest = Inr recs \<and>
    (\<forall>r\<in>set recs.
        (rta_type (fst r) = RTA_OIF \<longrightarrow> length (snd r) = 4) \<and>
        (rta_type (fst r) = RTA_GATEWAY \<longrightarrow>
           length (snd r) = (if rtm_family rtm = AF_INET then 4 else 16))) \<and>
    last_of RTA_OIF recs = Some di \<and> last_of RTA_GATEWAY recs = Some dg \<longrightarrow>
      gatewayFromRtm msg =
        Inr (Some (host_word di, if rtm_family rtm = AF_INET then V4 dg else V6 dg))) \<and>
   (extractRtData_ifaddrmsg amsg = Inr (ifa, arest) \<and> rtattrs arest = Inr arecs \<and>
    (\<forall>r\<in>set arecs.
        (rta_type (fst r) = IFA_ADDRESS \<longrightarrow>
           \<not> isl (addrFromBuf (ifa_family ifa) (snd r))) \<and>
        (rta_type (fst r) = IFA_FLAGS \<longrightarrow> length (snd r) = 4)) \<and>
    last_of IFA_ADDRESS arecs = Some da \<longrightarrow>
      (\<exists>ai'. addrFromRtm amsg = Inr ai' \<and>
         addrFromBuf (ifa_family ifa) da = Inr (addr (ifaddr ai')) \<and>
         flags ai' =
           (case last_of IFA_FLAGS arecs of
              None \<Rightarrow> ucast (ifa_flags ifa)
            | Some df \<Rightarrow> host_word df))) \<and>
   (extractRtData_ndmsg nmsg = Inr (ndm, nrest) \<and> rtattrs nrest = Inr nrecs \<and>
    (\<forall>r\<in>set nrecs.
        (rta_type (fst r) = NDA_LLADDR \<longrightarrow> 6 \<le> length (snd r)) \<and>
        (rta_type (fst r) = NDA_DST \<longrightarrow>
           \<not> isl (addrFromBuf (ndm_family ndm) (snd r)))) \<longrightarrow>
      (\<exists>ni'. neighFromRtm nmsg = Inr ni' \<and>
         n_mac ni' = map_option (take 6) (last_of NDA_LLADDR nrecs) \<and>
         (case last_of NDA_DST nrecs of
            None \<Rightarrow> n_addr ni' = None
          | Some d \<Rightarrow>
              \<exists>x. addrFromBuf (ndm_family ndm) d = Inr x \<and> n_addr ni' = Some x))) \<and>
   (extractRtData_rtmsg msg = Inr (rtm, rest) \<and> rtattrs rest = Inr recs \<and>
    gatewayFromRtm msg = Inr (Some (i, g)) \<longrightarrow>
      (\<exists>di dg. last_of RTA_OIF recs = Some di \<and> i = host_word di \<and>
               last_of RTA_GATEWAY recs = Some dg \<and>
               g = (if rtm_family rtm = AF_INET then V4 dg else V6 dg))) \<and>
   (extractRtData_ifaddrmsg amsg = Inr (ifa, arest) \<and> rtattrs arest = Inr arecs \<and>
    addrFromRtm amsg = Inr ai \<longrightarrow>
      (\<exists>d. last_of IFA_ADDRESS arecs = Some d \<and>
           addrFromBuf (ifa_family ifa) d = Inr (addr (ifaddr ai))) \<and>
      (\<forall>d. last_of IFA_FLAGS arecs = Some d \<longrightarrow> flags ai = host_word d)) \<and>
   (extractRtData_ndmsg nmsg = Inr (ndm, nrest) \<and> rtattrs nrest = Inr nrecs \<and>
    neighFromRtm nmsg = Inr ni \<longrightarrow>
      (\<forall>d. last_of NDA_LLADDR nrecs = Some d \<longrightarrow> n_mac ni = Some (take 6 d)) \<and>
      (\<forall>d. last_of NDA_DST nrecs = Some d \<longrightarrow>
           (\<exists>x. addrFromBuf (ndm_family ndm) d = Inr x \<and> n_addr ni = Some x)))"
proof (intro conjI impI)
  assume "extractRtData_rtmsg msg = Inr (rtm, rest) \<and>
    rtm_table rtm = RT_TABLE_MAIN \<and> rtm_dst_len rtm = 0 \<and>
    (rtm_family rtm = AF_INET \<or> rtm_family rtm = AF_INET6) \<and>
    rtattrs rest = Inr recs \<and>
    (\<forall>r\<in>set recs.
        (rta_type (fst r) = RTA_OIF \<longrightarrow> length (snd r) = 4) \<and>
        (rta_type (fst r) = RTA_GATEWAY \<longrightarrow>
           length (snd r) = (if rtm_family rtm = AF_INET then 4 else 16))) \<and>
    last_of RTA_OIF recs = Some di \<and> last_of RTA_GATEWAY recs = Some dg"
  then show "gatewayFromRtm msg =
        Inr (Some (host_word di, if rtm_family rtm = AF_INET then V4 dg else V6 dg))"
    by (elim conjE) (rule gatewayFromRtm_accepts)
next
  assume "extractRtData_ifaddrmsg amsg = Inr (ifa, arest) \<and> rtattrs arest = Inr arecs \<and>
    (\<forall>r\<in>set arecs.
        (rta_type (fst r) = IFA_ADDRESS \<longrightarrow>
           \<not> isl (addrFromBuf (ifa_family ifa) (snd r))) \<and>
        (rta_type (fst r) = IFA_FLAGS \<longrightarrow> length (snd r) = 4)) \<and>
    last_of IFA_ADDRESS arecs = Some da"
  then show "\<exists>ai'. addrFromRtm amsg = Inr ai' \<and>
         addrFromBuf (ifa_family ifa) da = Inr (addr (ifaddr ai')) \<and>
         flags ai' =
           (case last_of IFA_FLAGS arecs of
              None \<Rightarrow> ucast (ifa_flags ifa)
            | Some df \<Rightarrow> host_word df)"
    by (elim conjE) (rule addrFromRtm_accepts)
next
  assume "extractRtData_ndmsg nmsg = Inr (ndm, nrest) \<and> rtattrs nrest = Inr nrecs \<and>
    (\<forall>r\<in>set nrecs.
        (rta_type (fst r) = NDA_LLADDR \<longrightarrow> 6 \<le> length (snd r)) \<and>
        (rta_type (fst r) = NDA_DST \<longrightarrow>
           \<not> isl (addrFromBuf (ndm_family ndm) (snd r))))"
  then show "\<exists>ni'. neighFromRtm nmsg = Inr ni' \<and>
         n_mac ni' = map_option (take 6) (last_of NDA_LLADDR nrecs) \<and>
         (case last_of NDA_DST nrecs of
            None \<Rightarrow> n_addr ni' = None
          | Some d \<Rightarrow>
              \<exists>x. addrFromBuf (ndm_family ndm) d = Inr x \<and> n_addr ni' = Some x)"
    by (elim conjE) (rule neighFromRtm_accepts)
next
  assume h: "extractRtData_rtmsg msg = Inr (rtm, rest) \<and> rtattrs rest = Inr recs \<and>
    gatewayFromRtm msg = Inr (Some (i, g))"
  then have "parse (if rtm_family rtm = AF_INET then in_addr else in6_addr) rest = Inr (Some (i, g))"
    using gatewayFromRtm_Some by metis
  from parse_result [OF _ this, of recs] h
  show "\<exists>di dg. last_of RTA_OIF recs = Some di \<and> i = host_word di \<and>
               last_of RTA_GATEWAY recs = Some dg \<and>
               g = (if rtm_family rtm = AF_INET then V4 dg else V6 dg)"
    by (auto split: option.splits if_splits)
next
  assume h: "extractRtData_ifaddrmsg amsg = Inr (ifa, arest) \<and> rtattrs arest = Inr arecs \<and>
    addrFromRtm amsg = Inr ai"
  then obtain ret' a where
    run: "run_body (addr_body ifa) arecs
       (\<lparr>ifidx = ifa_index ifa, ifaddr = \<lparr>addr = V4 [0, 0, 0, 0], pfx = 0\<rparr>,
         scope = ifa_scope ifa, flags = ucast (ifa_flags ifa)\<rparr>, None) = Inr (ret', Some a)"
    and ai: "ai = ret'\<lparr>ifaddr := \<lparr>addr = a, pfx = ifa_prefixlen ifa\<rparr>\<rparr>"
    using addrFromRtm_run by blast
  from run_addr_body [OF run] ai
  show "\<exists>d. last_of IFA_ADDRESS arecs = Some d \<and>
           addrFromBuf (ifa_family ifa) d = Inr (addr (ifaddr ai))"
    by (auto split: option.splits)
  from run_addr_body [OF run] ai
  show "\<forall>d. last_of IFA_FLAGS arecs = Some d \<longrightarrow> flags ai = host_word d"
    by (auto split: option.splits)
next
  assume h: "extractRtData_ndmsg nmsg = Inr (ndm, nrest) \<and> rtattrs nrest = Inr nrecs \<and>
    neighFromRtm nmsg = Inr ni"
  then have run: "run_body (neigh_body ndm) nrecs
       \<lparr>n_ifidx = ndm_ifindex ndm, n_state = ndm_state ndm, n_addr = None, n_mac = None\<rparr> = Inr ni"
    using neighFromRtm_run by metis
  from run_neigh_body [OF run]
  show "\<forall>d. last_of NDA_LLADDR nrecs = Some d \<longrightarrow> n_mac ni = Some (take 6 d)"
    by (auto split: option.splits)
  from run_neigh_body [OF run]
  show "\<forall>d. last_of NDA_DST nrecs = Some d \<longrightarrow>
           (\<exists>x. addrFromBuf (ndm_family ndm) d = Inr x \<and> n_addr ni = Some x)"
    by (auto split: option.splits)
qed

text \<open>Each of the six attributes twice, with different values: all three messages decode,
  with the second value of each.\<close>

theorem last_occurrence_wins_witness:
  "(extractRtData_rtmsg
      ([2, 0, 0, 0, 254, 0, 0, 0, 0, 0, 0, 0] @
       [8, 0, 4, 0, 3, 0, 0, 0, 8, 0, 5, 0, 10, 0, 0, 1,
        8, 0, 4, 0, 7, 0, 0, 0, 8, 0, 5, 0, 10, 0, 0, 2])
      = Inr (rtmsg_of [2, 0, 0, 0, 254, 0, 0, 0, 0, 0, 0, 0],
             [8, 0, 4, 0, 3, 0, 0, 0, 8, 0, 5, 0, 10, 0, 0, 1,
              8, 0, 4, 0, 7, 0, 0, 0, 8, 0, 5, 0, 10, 0, 0, 2]) \<and>
    rtm_table (rtmsg_of [2, 0, 0, 0, 254, 0, 0, 0, 0, 0, 0, 0]) = RT_TABLE_MAIN \<and>
    rtm_dst_len (rtmsg_of [2, 0, 0, 0, 254, 0, 0, 0, 0, 0, 0, 0]) = 0 \<and>
    rtm_family (rtmsg_of [2, 0, 0, 0, 254, 0, 0, 0, 0, 0, 0, 0]) = AF_INET \<and>
    rtattrs [8, 0, 4, 0, 3, 0, 0, 0, 8, 0, 5, 0, 10, 0, 0, 1,
             8, 0, 4, 0, 7, 0, 0, 0, 8, 0, 5, 0, 10, 0, 0, 2]
      = Inr [(\<lparr>rta_len = 8, rta_type = 4\<rparr>, [3, 0, 0, 0]),
             (\<lparr>rta_len = 8, rta_type = 5\<rparr>, [10, 0, 0, 1]),
             (\<lparr>rta_len = 8, rta_type = 4\<rparr>, [7, 0, 0, 0]),
             (\<lparr>rta_len = 8, rta_type = 5\<rparr>, [10, 0, 0, 2])] \<and>
    list_all
      (\<lambda>r. (rta_type (fst r) = RTA_OIF \<longrightarrow> length (snd r) = 4) \<and>
           (rta_type (fst r) = RTA_GATEWAY \<longrightarrow>
              length (snd r) =
                (if rtm_family (rtmsg_of [2, 0, 0, 0, 254, 0, 0, 0, 0, 0, 0, 0]) = AF_INET
                 then 4 else 16)))
      [(\<lparr>rta_len = 8, rta_type = 4\<rparr>, [3 :: byte, 0, 0, 0]),
       (\<lparr>rta_len = 8, rta_type = 5\<rparr>, [10, 0, 0, 1]),
       (\<lparr>rta_len = 8, rta_type = 4\<rparr>, [7, 0, 0, 0]),
       (\<lparr>rta_len = 8, rta_type = 5\<rparr>, [10, 0, 0, 2])] \<and>
    last_of RTA_OIF
      [(\<lparr>rta_len = 8, rta_type = 4\<rparr>, [3, 0, 0, 0]),
       (\<lparr>rta_len = 8, rta_type = 5\<rparr>, [10, 0, 0, 1]),
       (\<lparr>rta_len = 8, rta_type = 4\<rparr>, [7, 0, 0, 0]),
       (\<lparr>rta_len = 8, rta_type = 5\<rparr>, [10, 0, 0, 2])] = Some [7, 0, 0, 0] \<and>
    last_of RTA_GATEWAY
      [(\<lparr>rta_len = 8, rta_type = 4\<rparr>, [3, 0, 0, 0]),
       (\<lparr>rta_len = 8, rta_type = 5\<rparr>, [10, 0, 0, 1]),
       (\<lparr>rta_len = 8, rta_type = 4\<rparr>, [7, 0, 0, 0]),
       (\<lparr>rta_len = 8, rta_type = 5\<rparr>, [10, 0, 0, 2])] = Some [10, 0, 0, 2]) \<and>
   gatewayFromRtm
     ([2, 0, 0, 0, 254, 0, 0, 0, 0, 0, 0, 0] @
      [8, 0, 4, 0, 3, 0, 0, 0, 8, 0, 5, 0, 10, 0, 0, 1,
       8, 0, 4, 0, 7, 0, 0, 0, 8, 0, 5, 0, 10, 0, 0, 2])
     = Inr (Some (7, V4 [10, 0, 0, 2])) \<and>
   (extractRtData_ifaddrmsg
      ([2, 24, 0, 0, 5, 0, 0, 0] @
       [8, 0, 1, 0, 192, 168, 0, 1, 8, 0, 8, 0, 1, 0, 0, 0,
        8, 0, 1, 0, 192, 168, 0, 2, 8, 0, 8, 0, 128, 2, 0, 0])
      = Inr (ifaddrmsg_of [2, 24, 0, 0, 5, 0, 0, 0],
             [8, 0, 1, 0, 192, 168, 0, 1, 8, 0, 8, 0, 1, 0, 0, 0,
              8, 0, 1, 0, 192, 168, 0, 2, 8, 0, 8, 0, 128, 2, 0, 0]) \<and>
    rtattrs [8, 0, 1, 0, 192, 168, 0, 1, 8, 0, 8, 0, 1, 0, 0, 0,
             8, 0, 1, 0, 192, 168, 0, 2, 8, 0, 8, 0, 128, 2, 0, 0]
      = Inr [(\<lparr>rta_len = 8, rta_type = 1\<rparr>, [192, 168, 0, 1]),
             (\<lparr>rta_len = 8, rta_type = 8\<rparr>, [1, 0, 0, 0]),
             (\<lparr>rta_len = 8, rta_type = 1\<rparr>, [192, 168, 0, 2]),
             (\<lparr>rta_len = 8, rta_type = 8\<rparr>, [128, 2, 0, 0])] \<and>
    list_all
      (\<lambda>r. (rta_type (fst r) = IFA_ADDRESS \<longrightarrow>
              \<not> isl (addrFromBuf (ifa_family (ifaddrmsg_of [2, 24, 0, 0, 5, 0, 0, 0]))
                        (snd r))) \<and>
           (rta_type (fst r) = IFA_FLAGS \<longrightarrow> length (snd r) = 4))
      [(\<lparr>rta_len = 8, rta_type = 1\<rparr>, [192 :: byte, 168, 0, 1]),
       (\<lparr>rta_len = 8, rta_type = 8\<rparr>, [1, 0, 0, 0]),
       (\<lparr>rta_len = 8, rta_type = 1\<rparr>, [192, 168, 0, 2]),
       (\<lparr>rta_len = 8, rta_type = 8\<rparr>, [128, 2, 0, 0])] \<and>
    last_of IFA_ADDRESS
      [(\<lparr>rta_len = 8, rta_type = 1\<rparr>, [192, 168, 0, 1]),
       (\<lparr>rta_len = 8, rta_type = 8\<rparr>, [1, 0, 0, 0]),
       (\<lparr>rta_len = 8, rta_type = 1\<rparr>, [192, 168, 0, 2]),
       (\<lparr>rta_len = 8, rta_type = 8\<rparr>, [128, 2, 0, 0])] = Some [192, 168, 0, 2] \<and>
    last_of IFA_FLAGS
      [(\<lparr>rta_len = 8, rta_type = 1\<rparr>, [192, 168, 0, 1]),
       (\<lparr>rta_len = 8, rta_type = 8\<rparr>, [1, 0, 0, 0]),
       (\<lparr>rta_len = 8, rta_type = 1\<rparr>, [192, 168, 0, 2]),
       (\<lparr>rta_len = 8, rta_type = 8\<rparr>, [128, 2, 0, 0])] = Some [128, 2, 0, 0]) \<and>
   (\<exists>ai. addrFromRtm
            ([2, 24, 0, 0, 5, 0, 0, 0] @
             [8, 0, 1, 0, 192, 168, 0, 1, 8, 0, 8, 0, 1, 0, 0, 0,
              8, 0, 1, 0, 192, 168, 0, 2, 8, 0, 8, 0, 128, 2, 0, 0]) = Inr ai \<and>
         addr (ifaddr ai) = V4 [192, 168, 0, 2] \<and> flags ai = 640) \<and>
   (extractRtData_ndmsg
      ([2, 0, 0, 0, 3, 0, 0, 0, 2, 0, 0, 0] @
       [10, 0, 2, 0, 1, 2, 3, 4, 5, 6, 0, 0, 8, 0, 1, 0, 10, 0, 0, 1,
        10, 0, 2, 0, 11, 12, 13, 14, 15, 16, 0, 0, 8, 0, 1, 0, 10, 0, 0, 9])
      = Inr (ndmsg_of [2, 0, 0, 0, 3, 0, 0, 0, 2, 0, 0, 0],
             [10, 0, 2, 0, 1, 2, 3, 4, 5, 6, 0, 0, 8, 0, 1, 0, 10, 0, 0, 1,
              10, 0, 2, 0, 11, 12, 13, 14, 15, 16, 0, 0, 8, 0, 1, 0, 10, 0, 0, 9]) \<and>
    rtattrs [10, 0, 2, 0, 1, 2, 3, 4, 5, 6, 0, 0, 8, 0, 1, 0, 10, 0, 0, 1,
             10, 0, 2, 0, 11, 12, 13, 14, 15, 16, 0, 0, 8, 0, 1, 0, 10, 0, 0, 9]
      = Inr [(\<lparr>rta_len = 10, rta_type = 2\<rparr>, [1, 2, 3, 4, 5, 6]),
             (\<lparr>rta_len = 8, rta_type = 1\<rparr>, [10, 0, 0, 1]),
             (\<lparr>rta_len = 10, rta_type = 2\<rparr>, [11, 12, 13, 14, 15, 16]),
             (\<lparr>rta_len = 8, rta_type = 1\<rparr>, [10, 0, 0, 9])] \<and>
    list_all
      (\<lambda>r. (rta_type (fst r) = NDA_LLADDR \<longrightarrow> 6 \<le> length (snd r)) \<and>
           (rta_type (fst r) = NDA_DST \<longrightarrow>
              \<not> isl (addrFromBuf (ndm_family (ndmsg_of [2, 0, 0, 0, 3, 0, 0, 0, 2, 0, 0, 0]))
                        (snd r))))
      [(\<lparr>rta_len = 10, rta_type = 2\<rparr>, [1 :: byte, 2, 3, 4, 5, 6]),
       (\<lparr>rta_len = 8, rta_type = 1\<rparr>, [10, 0, 0, 1]),
       (\<lparr>rta_len = 10, rta_type = 2\<rparr>, [11, 12, 13, 14, 15, 16]),
       (\<lparr>rta_len = 8, rta_type = 1\<rparr>, [10, 0, 0, 9])] \<and>
    last_of NDA_LLADDR
      [(\<lparr>rta_len = 10, rta_type = 2\<rparr>, [1, 2, 3, 4, 5, 6]),
       (\<lparr>rta_len = 8, rta_type = 1\<rparr>, [10, 0, 0, 1]),
       (\<lparr>rta_len = 10, rta_type = 2\<rparr>, [11, 12, 13, 14, 15, 16]),
       (\<lparr>rta_len = 8, rta_type = 1\<rparr>, [10, 0, 0, 9])] = Some [11, 12, 13, 14, 15, 16] \<and>
    last_of NDA_DST
      [(\<lparr>rta_len = 10, rta_type = 2\<rparr>, [1, 2, 3, 4, 5, 6]),
       (\<lparr>rta_len = 8, rta_type = 1\<rparr>, [10, 0, 0, 1]),
       (\<lparr>rta_len = 10, rta_type = 2\<rparr>, [11, 12, 13, 14, 15, 16]),
       (\<lparr>rta_len = 8, rta_type = 1\<rparr>, [10, 0, 0, 9])] = Some [10, 0, 0, 9]) \<and>
   (\<exists>ni. neighFromRtm
            ([2, 0, 0, 0, 3, 0, 0, 0, 2, 0, 0, 0] @
             [10, 0, 2, 0, 1, 2, 3, 4, 5, 6, 0, 0, 8, 0, 1, 0, 10, 0, 0, 1,
              10, 0, 2, 0, 11, 12, 13, 14, 15, 16, 0, 0, 8, 0, 1, 0, 10, 0, 0, 9]) = Inr ni \<and>
         n_mac ni = Some [11, 12, 13, 14, 15, 16] \<and>
         n_addr ni = Some (V4 [10, 0, 0, 9]))"
  (is "?HR \<and> ?CR \<and> ?HA \<and> ?CA \<and> ?HN \<and> ?CN")
proof -
  let ?rrecs = "[(\<lparr>rta_len = 8, rta_type = 4\<rparr>, [3 :: byte, 0, 0, 0]),
       (\<lparr>rta_len = 8, rta_type = 5\<rparr>, [10, 0, 0, 1]),
       (\<lparr>rta_len = 8, rta_type = 4\<rparr>, [7, 0, 0, 0]),
       (\<lparr>rta_len = 8, rta_type = 5\<rparr>, [10, 0, 0, 2])]"
  let ?arecs = "[(\<lparr>rta_len = 8, rta_type = 1\<rparr>, [192 :: byte, 168, 0, 1]),
       (\<lparr>rta_len = 8, rta_type = 8\<rparr>, [1, 0, 0, 0]),
       (\<lparr>rta_len = 8, rta_type = 1\<rparr>, [192, 168, 0, 2]),
       (\<lparr>rta_len = 8, rta_type = 8\<rparr>, [128, 2, 0, 0])]"
  let ?nrecs = "[(\<lparr>rta_len = 10, rta_type = 2\<rparr>, [1 :: byte, 2, 3, 4, 5, 6]),
       (\<lparr>rta_len = 8, rta_type = 1\<rparr>, [10, 0, 0, 1]),
       (\<lparr>rta_len = 10, rta_type = 2\<rparr>, [11, 12, 13, 14, 15, 16]),
       (\<lparr>rta_len = 8, rta_type = 1\<rparr>, [10, 0, 0, 9])]"
  have hr: ?HR by (simp add: run_defs)
  have ha: ?HA by (simp add: run_defs)
  have hn: ?HN by (simp add: run_defs)
  note inst = last_occurrence_wins
    [where msg = "[2, 0, 0, 0, 254, 0, 0, 0, 0, 0, 0, 0] @
       [8, 0, 4, 0, 3, 0, 0, 0, 8, 0, 5, 0, 10, 0, 0, 1,
        8, 0, 4, 0, 7, 0, 0, 0, 8, 0, 5, 0, 10, 0, 0, 2]"
      and rtm = "rtmsg_of [2, 0, 0, 0, 254, 0, 0, 0, 0, 0, 0, 0]"
      and rest = "[8, 0, 4, 0, 3, 0, 0, 0, 8, 0, 5, 0, 10, 0, 0, 1,
        8, 0, 4, 0, 7, 0, 0, 0, 8, 0, 5, 0, 10, 0, 0, 2]"
      and recs = ?rrecs and di = "[7, 0, 0, 0]" and dg = "[10, 0, 0, 2]"
      and amsg = "[2, 24, 0, 0, 5, 0, 0, 0] @
       [8, 0, 1, 0, 192, 168, 0, 1, 8, 0, 8, 0, 1, 0, 0, 0,
        8, 0, 1, 0, 192, 168, 0, 2, 8, 0, 8, 0, 128, 2, 0, 0]"
      and ifa = "ifaddrmsg_of [2, 24, 0, 0, 5, 0, 0, 0]"
      and arest = "[8, 0, 1, 0, 192, 168, 0, 1, 8, 0, 8, 0, 1, 0, 0, 0,
        8, 0, 1, 0, 192, 168, 0, 2, 8, 0, 8, 0, 128, 2, 0, 0]"
      and arecs = ?arecs and da = "[192, 168, 0, 2]"
      and nmsg = "[2, 0, 0, 0, 3, 0, 0, 0, 2, 0, 0, 0] @
       [10, 0, 2, 0, 1, 2, 3, 4, 5, 6, 0, 0, 8, 0, 1, 0, 10, 0, 0, 1,
        10, 0, 2, 0, 11, 12, 13, 14, 15, 16, 0, 0, 8, 0, 1, 0, 10, 0, 0, 9]"
      and ndm = "ndmsg_of [2, 0, 0, 0, 3, 0, 0, 0, 2, 0, 0, 0]"
      and nrest = "[10, 0, 2, 0, 1, 2, 3, 4, 5, 6, 0, 0, 8, 0, 1, 0, 10, 0, 0, 1,
        10, 0, 2, 0, 11, 12, 13, 14, 15, 16, 0, 0, 8, 0, 1, 0, 10, 0, 0, 9]"
      and nrecs = ?nrecs]
  from inst [THEN conjunct1] hr [unfolded list_all_iff]
  have "gatewayFromRtm
     ([2, 0, 0, 0, 254, 0, 0, 0, 0, 0, 0, 0] @
      [8, 0, 4, 0, 3, 0, 0, 0, 8, 0, 5, 0, 10, 0, 0, 1,
       8, 0, 4, 0, 7, 0, 0, 0, 8, 0, 5, 0, 10, 0, 0, 2])
     = Inr (Some (host_word [7, 0, 0, 0],
         if rtm_family (rtmsg_of [2, 0, 0, 0, 254, 0, 0, 0, 0, 0, 0, 0]) = AF_INET
         then V4 [10, 0, 0, 2] else V6 [10, 0, 0, 2]))"
    by blast
  with hr have cr: ?CR by (simp add: host_word_def)
  from inst [THEN conjunct2, THEN conjunct1] ha [unfolded list_all_iff]
  obtain ai where
    "addrFromRtm
            ([2, 24, 0, 0, 5, 0, 0, 0] @
             [8, 0, 1, 0, 192, 168, 0, 1, 8, 0, 8, 0, 1, 0, 0, 0,
              8, 0, 1, 0, 192, 168, 0, 2, 8, 0, 8, 0, 128, 2, 0, 0]) = Inr ai"
    "addrFromBuf (ifa_family (ifaddrmsg_of [2, 24, 0, 0, 5, 0, 0, 0])) [192, 168, 0, 2]
       = Inr (addr (ifaddr ai))"
    "flags ai =
       (case last_of IFA_FLAGS ?arecs of
          None \<Rightarrow> ucast (ifa_flags (ifaddrmsg_of [2, 24, 0, 0, 5, 0, 0, 0]))
        | Some df \<Rightarrow> host_word df)"
    by blast
  with ha have ca: ?CA
    by (auto simp: addrFromBuf_def ifaddrmsg_of_def AF_INET_def AF_INET6_def host_word_def)
  from inst [THEN conjunct2, THEN conjunct2, THEN conjunct1] hn [unfolded list_all_iff]
  obtain ni where
    "neighFromRtm
            ([2, 0, 0, 0, 3, 0, 0, 0, 2, 0, 0, 0] @
             [10, 0, 2, 0, 1, 2, 3, 4, 5, 6, 0, 0, 8, 0, 1, 0, 10, 0, 0, 1,
              10, 0, 2, 0, 11, 12, 13, 14, 15, 16, 0, 0, 8, 0, 1, 0, 10, 0, 0, 9]) = Inr ni"
    "n_mac ni = map_option (take 6) (last_of NDA_LLADDR ?nrecs)"
    "(case last_of NDA_DST ?nrecs of
        None \<Rightarrow> n_addr ni = None
      | Some d \<Rightarrow>
          \<exists>x. addrFromBuf (ndm_family (ndmsg_of [2, 0, 0, 0, 3, 0, 0, 0, 2, 0, 0, 0])) d = Inr x \<and>
              n_addr ni = Some x)"
    by blast
  with hn have cn: ?CN
    by (auto simp: addrFromBuf_def ndmsg_of_def AF_INET_def AF_INET6_def)
  from hr cr ha ca hn cn show ?thesis by blast
qed

text \<open>
  C7.  For each decoder, a message and the message with the same header whose stream is the
  first one's without the records of unrecognized type have the same outcome, be it a
  result or a failure.
\<close>

theorem unknown_attributes_skipped:
  "(length hdr = 12 \<and> rtattrs m = Inr recs \<and>
    rtattrs m' =
      Inr (filter (\<lambda>r. rta_type (fst r) = RTA_OIF \<or> rta_type (fst r) = RTA_GATEWAY) recs) \<longrightarrow>
      gatewayFromRtm (hdr @ m) = gatewayFromRtm (hdr @ m')) \<and>
   (length ahdr = 8 \<and> rtattrs am = Inr arecs \<and>
    rtattrs am' =
      Inr (filter (\<lambda>r. rta_type (fst r) = IFA_ADDRESS \<or> rta_type (fst r) = IFA_FLAGS) arecs) \<longrightarrow>
      addrFromRtm (ahdr @ am) = addrFromRtm (ahdr @ am')) \<and>
   (length nhdr = 12 \<and> rtattrs nm = Inr nrecs \<and>
    rtattrs nm' =
      Inr (filter (\<lambda>r. rta_type (fst r) = NDA_LLADDR \<or> rta_type (fst r) = NDA_DST) nrecs) \<longrightarrow>
      neighFromRtm (nhdr @ nm) = neighFromRtm (nhdr @ nm'))"
proof (intro conjI impI)
  assume h: "length hdr = 12 \<and> rtattrs m = Inr recs \<and>
    rtattrs m' =
      Inr (filter (\<lambda>r. rta_type (fst r) = RTA_OIF \<or> rta_type (fst r) = RTA_GATEWAY) recs)"
  then have "rtattr_loop (parse_body A) m s = rtattr_loop (parse_body A) m' s" for A s
    by (intro rtattr_loop_filter [where recs = recs and
          P = "\<lambda>r. rta_type (fst r) = RTA_OIF \<or> rta_type (fst r) = RTA_GATEWAY"])
       (simp_all add: parse_body_skip)
  then have "parse A m = parse A m'" for A
    by (simp add: parse_def)
  with h show "gatewayFromRtm (hdr @ m) = gatewayFromRtm (hdr @ m')"
    by (simp add: gatewayFromRtm_def extractRtData_rtmsg_append)
next
  assume h: "length ahdr = 8 \<and> rtattrs am = Inr arecs \<and>
    rtattrs am' =
      Inr (filter (\<lambda>r. rta_type (fst r) = IFA_ADDRESS \<or> rta_type (fst r) = IFA_FLAGS) arecs)"
  then have "rtattr_loop (addr_body ifa) am s = rtattr_loop (addr_body ifa) am' s" for ifa s
    by (intro rtattr_loop_filter [where recs = arecs and
          P = "\<lambda>r. rta_type (fst r) = IFA_ADDRESS \<or> rta_type (fst r) = IFA_FLAGS"])
       (simp_all add: addr_body_skip)
  with h show "addrFromRtm (ahdr @ am) = addrFromRtm (ahdr @ am')"
    by (simp add: addrFromRtm_def extractRtData_ifaddrmsg_append)
next
  assume h: "length nhdr = 12 \<and> rtattrs nm = Inr nrecs \<and>
    rtattrs nm' =
      Inr (filter (\<lambda>r. rta_type (fst r) = NDA_LLADDR \<or> rta_type (fst r) = NDA_DST) nrecs)"
  then have "rtattr_loop (neigh_body ndm) nm s = rtattr_loop (neigh_body ndm) nm' s" for ndm s
    by (intro rtattr_loop_filter [where recs = nrecs and
          P = "\<lambda>r. rta_type (fst r) = NDA_LLADDR \<or> rta_type (fst r) = NDA_DST"])
       (simp_all add: neigh_body_skip)
  with h show "neighFromRtm (nhdr @ nm) = neighFromRtm (nhdr @ nm')"
    by (simp add: neighFromRtm_def extractRtData_ndmsg_append)
qed

text \<open>An unknown record between, before and before the recognized ones; the second has a
  payload of one byte and three bytes of padding, the third an empty payload.\<close>

theorem unknown_attributes_skipped_witness:
  "(length [2 :: byte, 0, 0, 0, 254, 0, 0, 0, 0, 0, 0, 0] = 12 \<and>
    rtattrs [8, 0, 4, 0, 3, 0, 0, 0, 8, 0, 99, 0, 1, 2, 3, 4, 8, 0, 5, 0, 10, 0, 0, 1]
      = Inr [(\<lparr>rta_len = 8, rta_type = 4\<rparr>, [3, 0, 0, 0]),
             (\<lparr>rta_len = 8, rta_type = 99\<rparr>, [1, 2, 3, 4]),
             (\<lparr>rta_len = 8, rta_type = 5\<rparr>, [10, 0, 0, 1])] \<and>
    rtattrs [8, 0, 4, 0, 3, 0, 0, 0, 8, 0, 5, 0, 10, 0, 0, 1]
      = Inr (filter (\<lambda>r. rta_type (fst r) = RTA_OIF \<or> rta_type (fst r) = RTA_GATEWAY)
               [(\<lparr>rta_len = 8, rta_type = 4\<rparr>, [3, 0, 0, 0]),
                (\<lparr>rta_len = 8, rta_type = 99\<rparr>, [1, 2, 3, 4]),
                (\<lparr>rta_len = 8, rta_type = 5\<rparr>, [10, 0, 0, 1])])) \<and>
   gatewayFromRtm
     ([2, 0, 0, 0, 254, 0, 0, 0, 0, 0, 0, 0] @
      [8, 0, 4, 0, 3, 0, 0, 0, 8, 0, 99, 0, 1, 2, 3, 4, 8, 0, 5, 0, 10, 0, 0, 1])
     = gatewayFromRtm
         ([2, 0, 0, 0, 254, 0, 0, 0, 0, 0, 0, 0] @
          [8, 0, 4, 0, 3, 0, 0, 0, 8, 0, 5, 0, 10, 0, 0, 1]) \<and>
   (length [2 :: byte, 24, 0, 0, 5, 0, 0, 0] = 8 \<and>
    rtattrs [5, 0, 200, 0, 9, 0, 0, 0, 8, 0, 1, 0, 192, 168, 0, 1]
      = Inr [(\<lparr>rta_len = 5, rta_type = 200\<rparr>, [9]),
             (\<lparr>rta_len = 8, rta_type = 1\<rparr>, [192, 168, 0, 1])] \<and>
    rtattrs [8, 0, 1, 0, 192, 168, 0, 1]
      = Inr (filter (\<lambda>r. rta_type (fst r) = IFA_ADDRESS \<or> rta_type (fst r) = IFA_FLAGS)
               [(\<lparr>rta_len = 5, rta_type = 200\<rparr>, [9]),
                (\<lparr>rta_len = 8, rta_type = 1\<rparr>, [192, 168, 0, 1])])) \<and>
   addrFromRtm
     ([2, 24, 0, 0, 5, 0, 0, 0] @ [5, 0, 200, 0, 9, 0, 0, 0, 8, 0, 1, 0, 192, 168, 0, 1])
     = addrFromRtm ([2, 24, 0, 0, 5, 0, 0, 0] @ [8, 0, 1, 0, 192, 168, 0, 1]) \<and>
   (length [2 :: byte, 0, 0, 0, 3, 0, 0, 0, 2, 0, 0, 0] = 12 \<and>
    rtattrs [4, 0, 77, 0, 10, 0, 2, 0, 1, 2, 3, 4, 5, 6, 0, 0]
      = Inr [(\<lparr>rta_len = 4, rta_type = 77\<rparr>, []),
             (\<lparr>rta_len = 10, rta_type = 2\<rparr>, [1, 2, 3, 4, 5, 6])] \<and>
    rtattrs [10, 0, 2, 0, 1, 2, 3, 4, 5, 6, 0, 0]
      = Inr (filter (\<lambda>r. rta_type (fst r) = NDA_LLADDR \<or> rta_type (fst r) = NDA_DST)
               [(\<lparr>rta_len = 4, rta_type = 77\<rparr>, []),
                (\<lparr>rta_len = 10, rta_type = 2\<rparr>, [1, 2, 3, 4, 5, 6])])) \<and>
   neighFromRtm
     ([2, 0, 0, 0, 3, 0, 0, 0, 2, 0, 0, 0] @ [4, 0, 77, 0, 10, 0, 2, 0, 1, 2, 3, 4, 5, 6, 0, 0])
     = neighFromRtm
         ([2, 0, 0, 0, 3, 0, 0, 0, 2, 0, 0, 0] @ [10, 0, 2, 0, 1, 2, 3, 4, 5, 6, 0, 0])"
  (is "?HR \<and> ?CR \<and> ?HA \<and> ?CA \<and> ?HN \<and> ?CN")
proof -
  have hr: ?HR by (simp add: run_defs)
  have ha: ?HA by (simp add: run_defs)
  have hn: ?HN by (simp add: run_defs)
  note inst = unknown_attributes_skipped
    [where hdr = "[2, 0, 0, 0, 254, 0, 0, 0, 0, 0, 0, 0]"
       and m = "[8, 0, 4, 0, 3, 0, 0, 0, 8, 0, 99, 0, 1, 2, 3, 4, 8, 0, 5, 0, 10, 0, 0, 1]"
       and m' = "[8, 0, 4, 0, 3, 0, 0, 0, 8, 0, 5, 0, 10, 0, 0, 1]"
       and ahdr = "[2, 24, 0, 0, 5, 0, 0, 0]"
       and am = "[5, 0, 200, 0, 9, 0, 0, 0, 8, 0, 1, 0, 192, 168, 0, 1]"
       and am' = "[8, 0, 1, 0, 192, 168, 0, 1]"
       and nhdr = "[2, 0, 0, 0, 3, 0, 0, 0, 2, 0, 0, 0]"
       and nm = "[4, 0, 77, 0, 10, 0, 2, 0, 1, 2, 3, 4, 5, 6, 0, 0]"
       and nm' = "[10, 0, 2, 0, 1, 2, 3, 4, 5, 6, 0, 0]"]
  from inst hr have cr: ?CR by blast
  from inst ha have ca: ?CA by blast
  from inst hn have cn: ?CN by blast
  from hr cr ha ca hn cn show ?thesis by blast
qed

end
